theory Spec2Isabelle
  imports Main "HOL-Library.Word"
begin

unbundle bit_operations_syntax

section \<open>The auth service: data model\<close>

text \<open>
  A shallow embedding of \<^verbatim>\<open>src/auth-service\<close>: \<^verbatim>\<open>config.py\<close>,
  \<^verbatim>\<open>models.py\<close>, \<^verbatim>\<open>schemas.py\<close> and the three handlers of
  \<^verbatim>\<open>main.py\<close>.

  A Python \<^verbatim>\<open>str\<close> is a \<open>string\<close>, one \<open>char\<close> for each code point (so the
  model covers the code points below 256, and \<open>length\<close> is Python's \<^verbatim>\<open>len\<close>).
  A nullable column is an \<open>option\<close>. A \<^verbatim>\<open>DateTime\<close> is a \<open>nat\<close>, the reading of
  the database clock.
\<close>

subsection \<open>config.py\<close>

text \<open>
  Of \<^verbatim>\<open>Settings\<close> the handlers read \<^verbatim>\<open>OWNER_EMAIL\<close> only (default
  \<^verbatim>\<open>""\<close>); it is built once at import time and never assigned again.
\<close>

record Settings =
  OWNER_EMAIL :: string

subsection \<open>models.py\<close>

text \<open>The column \<^verbatim>\<open>id\<close> is \<open>user_id\<close> here: \<open>id\<close> is the identity function of HOL.\<close>

record User =
  user_id :: nat
  openId :: string
  name :: "string option"
  email :: "string option"
  passwordHash :: "string option"
  loginMethod :: "string option"
  role :: string
  createdAt :: nat
  updatedAt :: nat
  lastSignedIn :: nat

text \<open>The values of the \<^verbatim>\<open>Enum\<close> column \<^verbatim>\<open>role\<close>, and its \<^verbatim>\<open>default\<close>.\<close>

definition user_role :: "string list" where
  "user_role = [''user'', ''admin'', ''super_admin'', ''airline_admin'', ''finance'', ''ops'', ''support'']"

definition role_default :: string where
  "role_default = ''user''"

text \<open>
  The keyword arguments of the constructor call \<^verbatim>\<open>User(...)\<close>: the attributes of an
  object that is not flushed yet. A column that is not given is \<open>None\<close>; the primary key
  and the three timestamps are never given and come from the database.
\<close>

record User_kwargs =
  kw_openId :: string
  kw_name :: "string option"
  kw_email :: "string option"
  kw_passwordHash :: "string option"
  kw_loginMethod :: "string option"
  kw_role :: "string option"

subsection \<open>schemas.py\<close>

record RegisterRequest =
  reg_email :: string
  reg_password :: string
  reg_name :: "string option"

record LoginRequest =
  login_email :: string
  login_password :: string

record VerifyPasswordRequest =
  vp_email :: string
  vp_password :: string

record UserResponse =
  resp_id :: nat
  resp_openId :: string
  resp_name :: "string option"
  resp_email :: "string option"
  resp_role :: string

record AuthResponse =
  success :: bool
  user :: "UserResponse option"
  message :: "string option"

text \<open>\<^verbatim>\<open>UserResponse.model_validate(user)\<close> with \<^verbatim>\<open>from_attributes\<close>: the five attributes
  are read off the row.\<close>

definition model_validate :: "User \<Rightarrow> UserResponse" where
  "model_validate u =
     \<lparr>resp_id = user_id u, resp_openId = openId u, resp_name = name u,
      resp_email = email u, resp_role = role u\<rparr>"

subsection \<open>Errors\<close>

text \<open>
  Every way a request ends other than by returning: the \<^verbatim>\<open>HTTPException\<close> a handler
  raises (status code and detail), the rejection of a body by its schema before the
  handler is called, and the exceptions that no handler catches (\<^verbatim>\<open>main.py\<close> has no
  \<^verbatim>\<open>try\<close>): those of the session, and those of the password library
  (\<^verbatim>\<open>UnknownHashError\<close>, \<^verbatim>\<open>PasswordSizeError\<close>, the \<^verbatim>\<open>ValueError\<close> of a hash that
  does not parse, and \<^verbatim>\<open>PasswordValueError\<close>).
\<close>

datatype error =
    HTTPException nat string
  | RequestValidationError
  | IntegrityError
  | DataError
  | InvalidRequestError
  | UnknownHashError
  | PasswordSizeError
  | MalformedHashError
  | PasswordValueError

subsection \<open>Libraries and the environment of a request\<close>

text \<open>
  The handlers call library code that is not part of the repository. What that code
  computes is a parameter of the model, and nothing is assumed of it:
  \<^item> \<open>EmailStr\<close>: the validation of an \<^verbatim>\<open>EmailStr\<close> field, \<open>None\<close> for a rejected
    string and the validated value otherwise;
  \<^item> \<open>bcrypt_digest\<close>: the bcrypt hash string of a password, as a function of the
    password and of the salt drawn for the call;
  \<^item> \<open>bcrypt_from_string\<close>: whether a stored string that starts like a bcrypt hash
    parses as one (cost, salt and checksum);
  \<^item> \<open>bcrypt_consteq\<close>: whether the checksum of a password, under the cost and salt of
    a stored hash, equals the checksum of that hash.

  What the library checks before and around these computations, and the exceptions
  it raises there, is written out in \<open>pwd_hash\<close> and \<open>pwd_verify\<close> below.
\<close>

record Libs =
  EmailStr :: "string \<Rightarrow> string option"
  bcrypt_digest :: "string \<Rightarrow> string \<Rightarrow> string"
  bcrypt_from_string :: "string \<Rightarrow> bool"
  bcrypt_consteq :: "string \<Rightarrow> string \<Rightarrow> bool"

text \<open>What a request reads from outside: the 16 bytes of \<^verbatim>\<open>os.urandom\<close> that
  \<^verbatim>\<open>uuid.uuid4\<close> consumes (big-endian, as one 128-bit number), the salt of the hash, and
  the database clock.\<close>

record Env =
  urandom16 :: "128 word"
  salt :: string
  now :: nat

section \<open>Strings and identifiers\<close>

text \<open>\<^verbatim>\<open>str.lower\<close> on code points below 256: the letters A to Z, and the upper-case
  letters of Latin-1 (192 to 222 but for the multiplication sign 215), move up by 32.\<close>

definition lower_char :: "char \<Rightarrow> char" where
  "lower_char c =
     (let n = (of_char c :: nat)
      in if (65 \<le> n \<and> n \<le> 90) \<or> (192 \<le> n \<and> n \<le> 222 \<and> n \<noteq> 215)
         then char_of (n + 32) else c)"

definition lower :: "string \<Rightarrow> string" where
  "lower s = map lower_char s"

text \<open>
  \<^verbatim>\<open>uuid.uuid4()\<close> is \<^verbatim>\<open>UUID(bytes=os.urandom(16), version=4)\<close>, and the constructor
  overwrites the variant and the version bits of the number:
  \<^verbatim>\<open>int &= ~(0xc000 << 48); int |= 0x8000 << 48; int &= ~(0xf000 << 64); int |= version << 76\<close>.
\<close>

definition uuid4 :: "128 word \<Rightarrow> 128 word" where
  "uuid4 r =
     (((r AND NOT (push_bit 48 0xc000)) OR push_bit 48 0x8000)
        AND NOT (push_bit 64 0xf000)) OR push_bit 76 4"

text \<open>\<^verbatim>\<open>UUID.hex\<close> is \<^verbatim>\<open>'%032x' % self.int\<close>: 32 lower-case digits, the most
  significant first.\<close>

definition hexdigit :: "nat \<Rightarrow> char" where
  "hexdigit n = ''0123456789abcdef'' ! n"

definition nibble :: "128 word \<Rightarrow> nat \<Rightarrow> nat" where
  "nibble w k = unat (drop_bit (4 * (31 - k)) w AND 0xF)"

definition hex :: "128 word \<Rightarrow> string" where
  "hex w = map (\<lambda>k. hexdigit (nibble w k)) [0..<32]"

text \<open>Line 81 of \<^verbatim>\<open>main.py\<close>: \<^verbatim>\<open>f"local_{uuid.uuid4().hex[:16]}"\<close>.\<close>

definition new_open_id :: "128 word \<Rightarrow> string" where
  "new_open_id r = ''local_'' @ take 16 (hex (uuid4 r))"

text \<open>The role decision, line 84 of \<^verbatim>\<open>main.py\<close>. A string is true when it is not
  empty.\<close>

definition role_for :: "Settings \<Rightarrow> string \<Rightarrow> string" where
  "role_for cfg em =
     (if OWNER_EMAIL cfg \<noteq> [] \<and> lower em = lower (OWNER_EMAIL cfg) then ''admin'' else ''user'')"

text \<open>The truth value of an optional string: \<^verbatim>\<open>None\<close> and \<^verbatim>\<open>""\<close> are false.\<close>

definition truthy :: "string option \<Rightarrow> bool" where
  "truthy s = (case s of None \<Rightarrow> False | Some v \<Rightarrow> v \<noteq> [])"

section \<open>The password context\<close>

text \<open>
  \<^verbatim>\<open>pwd_context = CryptContext(schemes=["bcrypt"], deprecated="auto")\<close>. The two
  calls of the handlers, with the checks of the library in the order it makes them.

  A password longer than \<^verbatim>\<open>MAX_PASSWORD_SIZE\<close> (4096 characters) is refused with
  \<^verbatim>\<open>PasswordSizeError\<close>; the bcrypt handler refuses a password that holds the character
  NUL with \<^verbatim>\<open>PasswordValueError\<close>, since the algorithm would cut the password there.
\<close>

definition MAX_PASSWORD_SIZE :: nat where
  "MAX_PASSWORD_SIZE = 4096"

text \<open>\<^verbatim>\<open>pwd_context.hash(secret)\<close>.\<close>

definition pwd_hash :: "Libs \<Rightarrow> string \<Rightarrow> string \<Rightarrow> error + string" where
  "pwd_hash L secret slt =
     (if MAX_PASSWORD_SIZE < length secret then Inl PasswordSizeError
      else if CHR 0x00 \<in> set secret then Inl PasswordValueError
      else Inr (bcrypt_digest L secret slt))"

text \<open>The context recognises a hash by its prefix: the identifiers of the bcrypt
  scheme.\<close>

definition bcrypt_identify :: "string \<Rightarrow> bool" where
  "bcrypt_identify h =
     list_ex (\<lambda>p. take (length p) h = p) [''$2$'', ''$2a$'', ''$2x$'', ''$2y$'', ''$2b$'']"

text \<open>
  \<^verbatim>\<open>pwd_context.verify(secret, hash)\<close>, for a hash that is a string (the handlers call
  it with no other). A hash of no scheme of the context is \<^verbatim>\<open>UnknownHashError\<close>; then
  the size of the password is checked, the hash is parsed, the password is checked
  for NUL, and the checksums are compared.
\<close>

definition pwd_verify :: "Libs \<Rightarrow> string \<Rightarrow> string \<Rightarrow> error + bool" where
  "pwd_verify L secret h =
     (if \<not> bcrypt_identify h then Inl UnknownHashError
      else if MAX_PASSWORD_SIZE < length secret then Inl PasswordSizeError
      else if \<not> bcrypt_from_string L h then Inl MalformedHashError
      else if CHR 0x00 \<in> set secret then Inl PasswordValueError
      else Inr (bcrypt_consteq L secret h))"

section \<open>The session\<close>

text \<open>
  The store is the list of the rows of \<^verbatim>\<open>users\<close>, oldest first. A session holds the
  rows it sees and the objects added and not flushed yet (\<^verbatim>\<open>autoflush=False\<close>: a query
  does not flush them). Closing the session drops what is not committed.
\<close>

record Session =
  rows :: "User list"
  pending :: "User_kwargs list"

definition SessionLocal :: "User list \<Rightarrow> Session" where
  "SessionLocal db = \<lparr>rows = db, pending = []\<rparr>"

definition db_close :: "Session \<Rightarrow> User list" where
  "db_close s = rows s"

text \<open>\<^verbatim>\<open>db.query(User).filter(User.email == e).first()\<close>: the first row whose email is
  \<open>e\<close>; a row whose email is NULL matches nothing.\<close>

definition query_first_by_email :: "string \<Rightarrow> Session \<Rightarrow> User option" where
  "query_first_by_email e s = find (\<lambda>u. email u = Some e) (rows s)"

definition db_add :: "User_kwargs \<Rightarrow> Session \<Rightarrow> Session" where
  "db_add obj s = s\<lparr>pending := pending s @ [obj]\<rparr>"

text \<open>The next value of the auto-increment key: above every key of the table.\<close>

definition next_id :: "User list \<Rightarrow> nat" where
  "next_id db = Suc (fold max (map user_id db) 0)"

text \<open>
  The INSERT of one object. The columns not given take their defaults (\<open>role_default\<close>,
  the clock for the three timestamps, the next key). The statement fails when
  \<^verbatim>\<open>openId\<close> (\<^verbatim>\<open>unique=True\<close>) is already in the table, and when the role is not a
  value of the enum.
\<close>

definition row_of :: "nat \<Rightarrow> nat \<Rightarrow> User_kwargs \<Rightarrow> User" where
  "row_of k t obj =
     \<lparr>user_id = k, openId = kw_openId obj, name = kw_name obj,
      email = kw_email obj, passwordHash = kw_passwordHash obj,
      loginMethod = kw_loginMethod obj,
      role = (case kw_role obj of None \<Rightarrow> role_default | Some v \<Rightarrow> v),
      createdAt = t, updatedAt = t, lastSignedIn = t\<rparr>"

definition insert_row :: "nat \<Rightarrow> User_kwargs \<Rightarrow> User list \<Rightarrow> error + User list" where
  "insert_row t obj db =
     (let row = row_of (next_id db) t obj
      in if openId row \<in> set (map openId db) then Inl IntegrityError
         else if role row \<notin> set user_role then Inl DataError
         else Inr (db @ [row]))"

fun flush :: "nat \<Rightarrow> User_kwargs list \<Rightarrow> User list \<Rightarrow> error + User list" where
  "flush t [] db = Inr db"
| "flush t (obj # objs) db =
     (case insert_row t obj db of Inl e \<Rightarrow> Inl e | Inr db' \<Rightarrow> flush t objs db')"

text \<open>\<^verbatim>\<open>db.commit()\<close>: the pending objects are inserted in the order they were added. An
  error leaves the rows as they were.\<close>

definition db_commit :: "nat \<Rightarrow> Session \<Rightarrow> error + Session" where
  "db_commit t s =
     (case flush t (pending s) (rows s) of
        Inl e \<Rightarrow> Inl e
      | Inr db' \<Rightarrow> Inr \<lparr>rows = db', pending = []\<rparr>)"

text \<open>\<^verbatim>\<open>db.refresh(user)\<close>: the row of the object is read again. The object is found by
  its \<^verbatim>\<open>openId\<close>, which no two rows share.\<close>

definition db_refresh :: "User_kwargs \<Rightarrow> Session \<Rightarrow> User option" where
  "db_refresh obj s = find (\<lambda>u. openId u = kw_openId obj) (rows s)"

section \<open>The handlers of main.py\<close>

text \<open>A handler takes the store and returns what the request ends with and the store
  after \<^verbatim>\<open>get_db\<close> has closed the session. An exception of a library call is not
  caught: it ends the handler there, and the session is closed on the way out.\<close>

type_synonym outcome = "(error + AuthResponse) \<times> User list"

definition register :: "Libs \<Rightarrow> Settings \<Rightarrow> Env \<Rightarrow> RegisterRequest \<Rightarrow> User list \<Rightarrow> outcome" where
  "register L cfg e body db0 =
     (let db = SessionLocal db0;
          existing = query_first_by_email (reg_email body) db
      in if existing \<noteq> None
         then (Inl (HTTPException 409 ''A user with this email already exists.''), db_close db)
         else
           let open_id = new_open_id (urandom16 e)
           in case pwd_hash L (reg_password body) (salt e) of
                Inl err \<Rightarrow> (Inl err, db_close db)
              | Inr hashed \<Rightarrow>
                  let role = role_for cfg (reg_email body);
                      user = \<lparr>kw_openId = open_id, kw_name = reg_name body,
                              kw_email = Some (reg_email body), kw_passwordHash = Some hashed,
                              kw_loginMethod = Some ''password'', kw_role = Some role\<rparr>;
                      db1 = db_add user db
                  in case db_commit (now e) db1 of
                       Inl err \<Rightarrow> (Inl err, db_close db1)
                     | Inr db2 \<Rightarrow>
                         (case db_refresh user db2 of
                            None \<Rightarrow> (Inl InvalidRequestError, db_close db2)
                          | Some u \<Rightarrow>
                              (Inr \<lparr>success = True, user = Some (model_validate u),
                                    message = Some ''Registration successful.''\<rparr>,
                               db_close db2)))"

definition login :: "Libs \<Rightarrow> LoginRequest \<Rightarrow> User list \<Rightarrow> outcome" where
  "login L body db0 =
     (let db = SessionLocal db0;
          user = query_first_by_email (login_email body) db
      in case user of
           None \<Rightarrow> (Inl (HTTPException 401 ''Invalid email or password.''), db_close db)
         | Some u \<Rightarrow>
             if \<not> truthy (passwordHash u)
             then (Inl (HTTPException 401 ''Invalid email or password.''), db_close db)
             else
               case pwd_verify L (login_password body) (the (passwordHash u)) of
                 Inl err \<Rightarrow> (Inl err, db_close db)
               | Inr ok \<Rightarrow>
                   if \<not> ok
                   then (Inl (HTTPException 401 ''Invalid email or password.''), db_close db)
                   else (Inr \<lparr>success = True, user = Some (model_validate u),
                              message = Some ''Login successful.''\<rparr>,
                         db_close db))"

definition verify_password :: "Libs \<Rightarrow> VerifyPasswordRequest \<Rightarrow> User list \<Rightarrow> outcome" where
  "verify_password L body db0 =
     (let db = SessionLocal db0;
          user = query_first_by_email (vp_email body) db
      in case user of
           None \<Rightarrow>
             (Inr \<lparr>success = False, user = None,
                   message = Some ''User not found or no password set.''\<rparr>, db_close db)
         | Some u \<Rightarrow>
             if \<not> truthy (passwordHash u)
             then (Inr \<lparr>success = False, user = None,
                        message = Some ''User not found or no password set.''\<rparr>, db_close db)
             else
               case pwd_verify L (vp_password body) (the (passwordHash u)) of
                 Inl err \<Rightarrow> (Inl err, db_close db)
               | Inr ok \<Rightarrow>
                   if \<not> ok
                   then (Inr \<lparr>success = False, user = None,
                              message = Some ''Password does not match.''\<rparr>, db_close db)
                   else (Inr \<lparr>success = True, user = Some (model_validate u),
                              message = Some ''Password verified.''\<rparr>,
                         db_close db))"

section \<open>The endpoints: validation, then the handler\<close>

text \<open>
  The body of a request, after JSON decoding: the string fields the schemas name
  (\<^verbatim>\<open>name\<close> is optional, and a schema ignores a field it does not declare). A body
  with a field missing or of another JSON type is outside this type.
\<close>

record Body =
  body_email :: string
  body_password :: string
  body_name :: "string option"

text \<open>\<^verbatim>\<open>RegisterRequest\<close>: \<^verbatim>\<open>email: EmailStr\<close>,
  \<^verbatim>\<open>password: str = Field(min_length=8, max_length=128)\<close>.\<close>

definition validate_RegisterRequest :: "Libs \<Rightarrow> Body \<Rightarrow> RegisterRequest option" where
  "validate_RegisterRequest L b =
     (case EmailStr L (body_email b) of
        None \<Rightarrow> None
      | Some em \<Rightarrow>
          if 8 \<le> length (body_password b) \<and> length (body_password b) \<le> 128
          then Some \<lparr>reg_email = em, reg_password = body_password b, reg_name = body_name b\<rparr>
          else None)"

text \<open>\<^verbatim>\<open>LoginRequest\<close>: \<^verbatim>\<open>email: EmailStr\<close>, \<^verbatim>\<open>password: str = Field(min_length=1)\<close>.\<close>

definition validate_LoginRequest :: "Libs \<Rightarrow> Body \<Rightarrow> LoginRequest option" where
  "validate_LoginRequest L b =
     (case EmailStr L (body_email b) of
        None \<Rightarrow> None
      | Some em \<Rightarrow>
          if 1 \<le> length (body_password b)
          then Some \<lparr>login_email = em, login_password = body_password b\<rparr>
          else None)"

text \<open>\<^verbatim>\<open>VerifyPasswordRequest\<close>: \<^verbatim>\<open>email: str\<close>, \<^verbatim>\<open>password: str\<close>, no constraint.\<close>

definition validate_VerifyPasswordRequest :: "Libs \<Rightarrow> Body \<Rightarrow> VerifyPasswordRequest option" where
  "validate_VerifyPasswordRequest L b =
     Some \<lparr>vp_email = body_email b, vp_password = body_password b\<rparr>"

text \<open>A body its schema rejects never reaches the handler: the framework answers 422
  and no statement is sent to the database.\<close>

definition post_auth_register :: "Libs \<Rightarrow> Settings \<Rightarrow> Env \<Rightarrow> Body \<Rightarrow> User list \<Rightarrow> outcome" where
  "post_auth_register L cfg e b db =
     (case validate_RegisterRequest L b of
        None \<Rightarrow> (Inl RequestValidationError, db)
      | Some body \<Rightarrow> register L cfg e body db)"

definition post_auth_login :: "Libs \<Rightarrow> Body \<Rightarrow> User list \<Rightarrow> outcome" where
  "post_auth_login L b db =
     (case validate_LoginRequest L b of
        None \<Rightarrow> (Inl RequestValidationError, db)
      | Some body \<Rightarrow> login L body db)"

definition post_auth_verify_password :: "Libs \<Rightarrow> Body \<Rightarrow> User list \<Rightarrow> outcome" where
  "post_auth_verify_password L b db =
     (case validate_VerifyPasswordRequest L b of
        None \<Rightarrow> (Inl RequestValidationError, db)
      | Some body \<Rightarrow> verify_password L body db)"

text \<open>The service as a whole: requests are served one after the other, each with its own
  environment, and the store of one is the store the next one starts from.\<close>

datatype request = Register Body | Login Body | VerifyPassword Body

fun handle :: "Libs \<Rightarrow> Settings \<Rightarrow> Env \<Rightarrow> request \<Rightarrow> User list \<Rightarrow> outcome" where
  "handle L cfg e (Register b) db = post_auth_register L cfg e b db"
| "handle L cfg e (Login b) db = post_auth_login L b db"
| "handle L cfg e (VerifyPassword b) db = post_auth_verify_password L b db"

fun serve :: "Libs \<Rightarrow> Settings \<Rightarrow> (Env \<times> request) list \<Rightarrow> User list \<Rightarrow> User list" where
  "serve L cfg [] db = db"
| "serve L cfg ((e, q) # qs) db = serve L cfg qs (snd (handle L cfg e q db))"

section \<open>The verification steps, as the specification words them\<close>

text \<open>
  The specification describes one sequence of checks for Login and VerifyPassword: look
  the record up by email; if it is absent or has no password hash, stop; verify the
  password against the stored hash; on a mismatch, stop. The definition below follows
  those words (a hash that is the empty string counts as no hash, as it does for
  Python's \<^verbatim>\<open>not\<close>); the two handlers are compared with it. The verification is the
  library's: where it raises, there is no verdict and the error is the result.
\<close>

datatype verdict = Unknown_or_passwordless | Mismatch | Verified User

definition spec_verify :: "Libs \<Rightarrow> string \<Rightarrow> string \<Rightarrow> User list \<Rightarrow> error + verdict" where
  "spec_verify L em pw db =
     (case find (\<lambda>u. email u = Some em) db of
        None \<Rightarrow> Inr Unknown_or_passwordless
      | Some u \<Rightarrow>
          if \<not> truthy (passwordHash u) then Inr Unknown_or_passwordless
          else
            case pwd_verify L pw (the (passwordHash u)) of
              Inl err \<Rightarrow> Inl err
            | Inr ok \<Rightarrow> Inr (if ok then Verified u else Mismatch))"

section \<open>Example data\<close>

text \<open>
  The values the theorems below are instantiated with: stand-ins for the library
  functions (an address is accepted when it holds an at sign; a hash is the prefix
  \<^verbatim>\<open>$2b$\<close>, the salt, a dollar sign and the password, and parses when it holds three
  dollar signs), the owner of the scenario of the specification, and an environment
  whose random bytes are all zero.
\<close>

definition demo_libs :: Libs where
  "demo_libs =
     \<lparr>EmailStr = (\<lambda>s. if CHR ''@'' \<in> set s then Some s else None),
      bcrypt_digest = (\<lambda>p s. ''$2b$'' @ s @ ''$'' @ p),
      bcrypt_from_string = (\<lambda>h. length (filter (\<lambda>c. c = CHR ''$'') h) = 3),
      bcrypt_consteq = (\<lambda>p h. dropWhile (\<lambda>c. c \<noteq> CHR ''$'') (drop 4 h) = ''$'' @ p)\<rparr>"

definition demo_cfg :: Settings where
  "demo_cfg = \<lparr>OWNER_EMAIL = ''owner@x.com''\<rparr>"

definition demo_env :: Env where
  "demo_env = \<lparr>urandom16 = 0, salt = ''salt'', now = 7\<rparr>"

text \<open>Three rows: a user with a password, one without (a social login), and one whose
  hash is the empty string.\<close>

definition demo_db :: "User list" where
  "demo_db =
     [\<lparr>user_id = 1, openId = ''local_0000000000004000'', name = None,
       email = Some ''a@x.com'', passwordHash = Some ''$2b$salt$longpassword1'',
       loginMethod = Some ''password'', role = ''user'',
       createdAt = 1, updatedAt = 1, lastSignedIn = 1\<rparr>,
      \<lparr>user_id = 2, openId = ''oauth_2'', name = Some ''B'',
       email = Some ''b@x.com'', passwordHash = None,
       loginMethod = Some ''google'', role = ''support'',
       createdAt = 2, updatedAt = 2, lastSignedIn = 2\<rparr>,
      \<lparr>user_id = 3, openId = ''oauth_3'', name = None,
       email = Some ''c@x.com'', passwordHash = Some [],
       loginMethod = None, role = ''ops'',
       createdAt = 3, updatedAt = 3, lastSignedIn = 3\<rparr>]"

section \<open>Facts about the identifier\<close>

text \<open>The four assignments of the UUID constructor, as fields: bits 62 and 63 become
  \<open>10\<close> (the variant), bits 76 to 79 become \<open>0100\<close> (the version).\<close>

lemma bit_set_fields:
  fixes r :: "128 word"
  assumes "b < 128" "d < 128"
  shows "bit ((((r AND NOT (push_bit a (mask 2))) OR push_bit b 1)
            AND NOT (push_bit c (mask 4))) OR push_bit d 1) n =
         (n = d \<or> (\<not> (c \<le> n \<and> n < c + 4) \<and> (n = b \<or> (\<not> (a \<le> n \<and> n < a + 2) \<and> bit r n))))"
  using assms
  apply (simp add: bit_or_iff bit_and_iff bit_not_iff bit_push_bit_iff bit_mask_iff bit_exp_iff)
  apply (auto dest: bit_imp_le_length)
  done

lemma uuid4_fields:
  "uuid4 r = (((r AND NOT (push_bit 62 (mask 2))) OR push_bit 63 1)
            AND NOT (push_bit 76 (mask 4))) OR push_bit 78 1"
  by (simp add: uuid4_def mask_eq_exp_minus_1)

lemma bit_uuid4:
  "bit (uuid4 r) n =
     (n = 78 \<or> (\<not> (76 \<le> n \<and> n < 80) \<and> (n = 63 \<or> (\<not> (62 \<le> n \<and> n < 64) \<and> bit r n))))"
  unfolding uuid4_fields by (subst bit_set_fields) simp_all

lemma nibble_take_bit: "nibble w k = unat (take_bit 4 (drop_bit (4 * (31 - k)) w))"
  unfolding nibble_def by (simp add: take_bit_eq_mask mask_eq_exp_minus_1)

lemma nibble_lt: "nibble w k < 16"
proof -
  have "unat (take_bit 4 (drop_bit (4 * (31 - k)) w)) < 2 ^ 4"
    by (simp add: unsigned_take_bit_eq del: power_numeral)
  then show ?thesis by (simp add: nibble_take_bit)
qed

lemma bit_four: "bit (4 :: 128 word) n = (n = 2)"
proof -
  have "bit (2 ^ 2 :: 128 word) n = (n = 2)"
    unfolding bit_exp_iff possible_bit_word by auto
  then show ?thesis by simp
qed

text \<open>The digit at index 12 is the version, whatever the random bytes.\<close>

lemma nibble_version: "nibble (uuid4 r) 12 = 4"
proof -
  have "take_bit 4 (drop_bit 76 (uuid4 r)) = (4 :: 128 word)"
    apply (rule bit_word_eqI)
    apply (simp only: bit_four)
    apply (simp only: bit_take_bit_iff bit_drop_bit_eq)
    apply (auto simp add: bit_uuid4)
    done
  then show ?thesis by (simp add: nibble_take_bit)
qed

text \<open>The other fifteen of the first sixteen digits are those of the random bytes.\<close>

lemma nibble_random:
  assumes "k < 16" "k \<noteq> 12"
  shows "nibble (uuid4 r) k = nibble r k"
proof -
  have "take_bit 4 (drop_bit (4 * (31 - k)) (uuid4 r)) = take_bit 4 (drop_bit (4 * (31 - k)) r)"
    using assms
    by (intro bit_word_eqI) (auto simp add: bit_take_bit_iff bit_drop_bit_eq bit_uuid4)
  then show ?thesis by (simp add: nibble_take_bit)
qed

lemma length_hex: "length (hex w) = 32"
  by (simp add: hex_def)

lemma hex_nth: "k < 32 \<Longrightarrow> hex w ! k = hexdigit (nibble w k)"
  by (simp add: hex_def)

lemma hexdigit_mem: "n < 16 \<Longrightarrow> hexdigit n \<in> set ''0123456789abcdef''"
  unfolding hexdigit_def by (rule nth_mem) simp

lemma open_id_shape:
  "\<exists>s. new_open_id r = ''local_'' @ s \<and> length s = 16 \<and> set s \<subseteq> set ''0123456789abcdef''
     \<and> s ! 12 = CHR ''4'' \<and> (\<forall>k<16. k \<noteq> 12 \<longrightarrow> s ! k = hex r ! k)"
proof -
  let ?s = "take 16 (hex (uuid4 r))"
  have len: "length ?s = 16" by (simp add: length_hex)
  have nth: "?s ! k = hexdigit (nibble (uuid4 r) k)" if "k < 16" for k
    using that by (simp add: hex_nth)
  have "set ?s \<subseteq> set ''0123456789abcdef''"
  proof
    fix c assume "c \<in> set ?s"
    then obtain k where "k < 16" "?s ! k = c"
      using len by (metis in_set_conv_nth)
    then show "c \<in> set ''0123456789abcdef''"
      using nth [of k] hexdigit_mem [OF nibble_lt] by metis
  qed
  moreover have "?s ! 12 = CHR ''4''"
    using nth [of 12] by (simp add: nibble_version hexdigit_def)
  moreover have "\<forall>k<16. k \<noteq> 12 \<longrightarrow> ?s ! k = hex r ! k"
    by (simp add: nth nibble_random hex_nth)
  ultimately show ?thesis
    using len unfolding new_open_id_def by blast
qed

section \<open>Facts about the password context\<close>

lemma pwd_hash_accepts:
  "length secret \<le> MAX_PASSWORD_SIZE \<Longrightarrow> CHR 0x00 \<notin> set secret \<Longrightarrow>
   pwd_hash L secret slt = Inr (bcrypt_digest L secret slt)"
  by (simp add: pwd_hash_def)

lemma pwd_hash_refuses:
  "MAX_PASSWORD_SIZE < length secret \<or> CHR 0x00 \<in> set secret \<Longrightarrow>
   pwd_hash L secret slt = Inl PasswordSizeError \<or> pwd_hash L secret slt = Inl PasswordValueError"
  by (auto simp add: pwd_hash_def)

lemma pwd_verify_accepts:
  "bcrypt_identify h \<Longrightarrow> bcrypt_from_string L h \<Longrightarrow> length secret \<le> MAX_PASSWORD_SIZE \<Longrightarrow>
   CHR 0x00 \<notin> set secret \<Longrightarrow> pwd_verify L secret h = Inr (bcrypt_consteq L secret h)"
  by (simp add: pwd_verify_def)

lemma pwd_verify_raises:
  "pwd_verify L secret h = Inl err \<Longrightarrow>
   err \<in> {UnknownHashError, PasswordSizeError, MalformedHashError, PasswordValueError}"
  by (auto simp add: pwd_verify_def split: if_splits)

section \<open>Facts about the handlers\<close>

lemma role_for_cases: "role_for cfg em = ''admin'' \<or> role_for cfg em = ''user''"
  by (simp add: role_for_def)

lemma role_for_enum: "role_for cfg em \<in> set user_role"
  using role_for_cases [of cfg em] by (auto simp add: user_role_def)

lemma flush_single: "flush t [obj] db = insert_row t obj db"
  by (simp split: sum.splits)

lemma find_email_None: "(find (\<lambda>u. email u = Some em) db = None) = (\<not> (\<exists>u\<in>set db. email u = Some em))"
  by (auto simp add: find_None_iff)

lemma find_fresh_append:
  "oid \<notin> openId ` set db \<Longrightarrow> openId row = oid \<Longrightarrow> find (\<lambda>u. openId u = oid) (db @ [row]) = Some row"
  by (induction db) auto

text \<open>The ways \<open>register\<close> ends, with the session unfolded.\<close>

lemma register_cases:
  "register L cfg e body db =
     (if \<exists>u\<in>set db. email u = Some (reg_email body)
      then (Inl (HTTPException 409 ''A user with this email already exists.''), db)
      else
        case pwd_hash L (reg_password body) (salt e) of
          Inl err \<Rightarrow> (Inl err, db)
        | Inr hashed \<Rightarrow>
            if new_open_id (urandom16 e) \<in> openId ` set db
            then (Inl IntegrityError, db)
            else
              let row = row_of (next_id db) (now e)
                    \<lparr>kw_openId = new_open_id (urandom16 e), kw_name = reg_name body,
                     kw_email = Some (reg_email body),
                     kw_passwordHash = Some hashed,
                     kw_loginMethod = Some ''password'',
                     kw_role = Some (role_for cfg (reg_email body))\<rparr>
              in (Inr \<lparr>success = True, user = Some (model_validate row),
                        message = Some ''Registration successful.''\<rparr>, db @ [row]))"
proof (cases "\<exists>u\<in>set db. email u = Some (reg_email body)")
  case True
  then have "find (\<lambda>u. email u = Some (reg_email body)) db \<noteq> None"
    by (auto simp add: find_None_iff)
  with True show ?thesis
    by (simp add: register_def SessionLocal_def query_first_by_email_def db_close_def)
next
  case no: False
  then have none: "find (\<lambda>u. email u = Some (reg_email body)) db = None"
    by (auto simp add: find_None_iff)
  show ?thesis
  proof (cases "pwd_hash L (reg_password body) (salt e)")
    case (Inl err)
    with no none show ?thesis
      by (simp add: register_def SessionLocal_def query_first_by_email_def db_close_def Let_def)
  next
    case (Inr hashed)
    show ?thesis
    proof (cases "new_open_id (urandom16 e) \<in> openId ` set db")
      case True
      with no none Inr show ?thesis
        by (simp add: register_def SessionLocal_def query_first_by_email_def db_close_def
            db_add_def db_commit_def insert_row_def row_of_def Let_def)
    next
      case False
      with no none Inr show ?thesis
        by (simp add: register_def SessionLocal_def query_first_by_email_def db_close_def
            db_add_def db_commit_def db_refresh_def insert_row_def row_of_def Let_def
            role_for_enum find_fresh_append)
    qed
  qed
qed

text \<open>Two identifiers, computed.\<close>

lemma new_open_id_zero: "new_open_id 0 = ''local_0000000000004000''"
  by code_simp

lemma new_open_id_ones: "new_open_id (- 1) = ''local_ffffffffffff4fff''"
  by code_simp

text \<open>The password of the examples is one the library hashes.\<close>

lemma demo_hash:
  "pwd_hash demo_libs ''longpassword1'' slt = Inr (''$2b$'' @ slt @ ''$longpassword1'')"
  by (simp add: pwd_hash_def MAX_PASSWORD_SIZE_def demo_libs_def)

lemma login_store: "snd (login L body db) = db"
  by (simp add: login_def Let_def SessionLocal_def db_close_def split: option.splits sum.splits)

lemma verify_password_store: "snd (verify_password L body db) = db"
  by (simp add: verify_password_def Let_def SessionLocal_def db_close_def
      split: option.splits sum.splits)

lemma register_store:
  "snd (register L cfg e body db) = db \<or>
   (\<exists>row. snd (register L cfg e body db) = db @ [row] \<and> role row = role_for cfg (reg_email body))"
  by (simp add: register_cases Let_def row_of_def split: sum.splits)

lemma handle_role:
  assumes "\<forall>u\<in>set db. role u \<in> set user_role"
  shows "\<forall>u\<in>set (snd (handle L cfg e q db)). role u \<in> set user_role"
proof (cases q)
  case (Register b)
  show ?thesis
  proof (cases "validate_RegisterRequest L b")
    case None
    with Register assms show ?thesis by (simp add: post_auth_register_def)
  next
    case (Some body)
    with Register assms register_store [of L cfg e body db] role_for_enum [of cfg "reg_email body"]
    show ?thesis by (auto simp add: post_auth_register_def)
  qed
next
  case (Login b)
  with assms show ?thesis
    by (simp add: post_auth_login_def login_store split: option.splits)
next
  case (VerifyPassword b)
  with assms show ?thesis
    by (simp add: post_auth_verify_password_def verify_password_store split: option.splits)
qed

lemma serve_role:
  "\<forall>u\<in>set db. role u \<in> set user_role \<Longrightarrow> \<forall>u\<in>set (serve L cfg qs db). role u \<in> set user_role"
proof (induction qs arbitrary: db)
  case Nil
  then show ?case by simp
next
  case (Cons p qs)
  obtain e q where p: "p = (e, q)" by (cases p)
  from Cons.prems have "\<forall>u\<in>set (snd (handle L cfg e q db)). role u \<in> set user_role"
    by (rule handle_role)
  then show ?case unfolding p by (simp add: Cons.IH)
qed

section \<open>The claims\<close>

subsection \<open>C1: the role decision\<close>

text \<open>
  C1. Whenever Register creates a user, the role of that user (in the response and in
  the row that is stored) is \<^verbatim>\<open>admin\<close> if the owner email is configured (not empty)
  and equals the registering email once both are lower-cased, and \<^verbatim>\<open>user\<close> in every
  other case. The store the call starts from is arbitrary, so neither the order of the
  calls nor the rows already there change the decision.
\<close>

theorem register_assigns_role:
  assumes "register L cfg e body db = (Inr r, db')"
  shows "\<exists>u row. user r = Some u \<and> db' = db @ [row] \<and> resp_role u = role row \<and>
           role row = (if OWNER_EMAIL cfg \<noteq> [] \<and> lower (reg_email body) = lower (OWNER_EMAIL cfg)
                       then ''admin'' else ''user'')"
  using assms
  by (auto simp add: register_cases Let_def row_of_def model_validate_def role_for_def
      split: if_splits sum.splits)

theorem register_assigns_role_witness:
  "(\<exists>r db'. register demo_libs demo_cfg (demo_env\<lparr>urandom16 := - 1\<rparr>)
        \<lparr>reg_email = ''Owner@X.com'', reg_password = ''longpassword1'', reg_name = None\<rparr> demo_db
        = (Inr r, db') \<and>
      (\<exists>u row. user r = Some u \<and> db' = demo_db @ [row] \<and> resp_role u = role row \<and> role row = ''admin'')) \<and>
   (\<exists>r db'. register demo_libs demo_cfg (demo_env\<lparr>urandom16 := - 1\<rparr>)
        \<lparr>reg_email = ''d@x.com'', reg_password = ''longpassword1'', reg_name = None\<rparr> demo_db
        = (Inr r, db') \<and>
      (\<exists>u row. user r = Some u \<and> db' = demo_db @ [row] \<and> resp_role u = role row \<and> role row = ''user''))"
proof -
  let ?e = "demo_env\<lparr>urandom16 := - 1\<rparr>"
  let ?b1 = "\<lparr>reg_email = ''Owner@X.com'', reg_password = ''longpassword1'', reg_name = None\<rparr>"
  let ?b2 = "\<lparr>reg_email = ''d@x.com'', reg_password = ''longpassword1'', reg_name = None\<rparr>"
  have "\<exists>r db'. register demo_libs demo_cfg ?e ?b1 demo_db = (Inr r, db')"
    by (simp add: register_cases demo_hash demo_db_def demo_env_def new_open_id_ones Let_def)
  then obtain r1 d1 where h1: "register demo_libs demo_cfg ?e ?b1 demo_db = (Inr r1, d1)"
    by blast
  have "\<exists>r db'. register demo_libs demo_cfg ?e ?b2 demo_db = (Inr r, db')"
    by (simp add: register_cases demo_hash demo_db_def demo_env_def new_open_id_ones Let_def)
  then obtain r2 d2 where h2: "register demo_libs demo_cfg ?e ?b2 demo_db = (Inr r2, d2)"
    by blast
  have l1: "lower ''Owner@X.com'' = lower ''owner@x.com''"
    by code_simp
  have l2: "lower ''d@x.com'' \<noteq> lower ''owner@x.com''"
    by code_simp
  from register_assigns_role [OF h1] l1 have c1:
    "\<exists>u row. user r1 = Some u \<and> d1 = demo_db @ [row] \<and> resp_role u = role row \<and> role row = ''admin''"
    by (simp add: demo_cfg_def)
  from register_assigns_role [OF h2] l2 have c2:
    "\<exists>u row. user r2 = Some u \<and> d2 = demo_db @ [row] \<and> resp_role u = role row \<and> role row = ''user''"
    by (simp add: demo_cfg_def)
  from h1 c1 h2 c2 show ?thesis by blast
qed

subsection \<open>C2: conflict, or one row inserted\<close>

text \<open>
  C2 as stated says that every Register call whose email matches no record inserts one
  row and returns the new user. Two calls with a new email insert nothing. The column
  \<^verbatim>\<open>openId\<close> is declared \<^verbatim>\<open>unique=True\<close>, and the identifier is drawn at random
  without a look at the table: when the draw repeats an identifier that is stored
  already (here \<^verbatim>\<open>local_0000000000004000\<close>, from random bytes that are zero), the
  commit fails. And the password library refuses a password that holds the character
  NUL, which the schema admits (here nine characters, the last one NUL): the hash is
  never computed and the handler ends with the error of the library.
\<close>

theorem register_collision_counterexample:
  "Some ''new@x.com'' \<notin> set (map email demo_db) \<and>
   register demo_libs demo_cfg demo_env
     \<lparr>reg_email = ''new@x.com'', reg_password = ''longpassword1'', reg_name = None\<rparr> demo_db
   = (Inl IntegrityError, demo_db) \<and>
   length (''longpass'' @ [CHR 0x00]) = 9 \<and>
   register demo_libs demo_cfg (demo_env\<lparr>urandom16 := - 1\<rparr>)
     \<lparr>reg_email = ''new@x.com'', reg_password = ''longpass'' @ [CHR 0x00], reg_name = None\<rparr> demo_db
   = (Inl PasswordValueError, demo_db)"
  by (simp add: register_cases demo_hash demo_db_def demo_env_def new_open_id_zero
      pwd_hash_def MAX_PASSWORD_SIZE_def)

text \<open>
  C2, amended. A Register call whose email has a matching record fails with the
  conflict error (409) and leaves the store as it was. A call whose email has no
  matching record, whose password the library hashes (at most 4096 characters, none of
  them NUL) and whose new identifier is not in the store yet, appends exactly one row
  (the rows before it are untouched) and returns the user of that row. A call whose
  email has no matching record fails, and leaves the store as it was, with the
  integrity error of the database when the new identifier is taken already, and with
  the error of the password library when the password is longer than 4096 characters
  or holds NUL.
\<close>

theorem register_conflict_or_insert:
  "(Some (reg_email body) \<in> set (map email db) \<longrightarrow>
      register L cfg e body db =
        (Inl (HTTPException 409 ''A user with this email already exists.''), db)) \<and>
   (Some (reg_email body) \<notin> set (map email db) \<and>
    length (reg_password body) \<le> MAX_PASSWORD_SIZE \<and> CHR 0x00 \<notin> set (reg_password body) \<and>
    new_open_id (urandom16 e) \<notin> set (map openId db) \<longrightarrow>
      (\<exists>row. register L cfg e body db =
          (Inr \<lparr>success = True, user = Some (model_validate row),
                message = Some ''Registration successful.''\<rparr>, db @ [row]) \<and>
        email row = Some (reg_email body) \<and> openId row = new_open_id (urandom16 e))) \<and>
   (Some (reg_email body) \<notin> set (map email db) \<and>
    length (reg_password body) \<le> MAX_PASSWORD_SIZE \<and> CHR 0x00 \<notin> set (reg_password body) \<and>
    new_open_id (urandom16 e) \<in> set (map openId db) \<longrightarrow>
      register L cfg e body db = (Inl IntegrityError, db)) \<and>
   (Some (reg_email body) \<notin> set (map email db) \<and>
    MAX_PASSWORD_SIZE < length (reg_password body) \<longrightarrow>
      register L cfg e body db = (Inl PasswordSizeError, db)) \<and>
   (Some (reg_email body) \<notin> set (map email db) \<and>
    length (reg_password body) \<le> MAX_PASSWORD_SIZE \<and> CHR 0x00 \<in> set (reg_password body) \<longrightarrow>
      register L cfg e body db = (Inl PasswordValueError, db))"
proof -
  have eq: "(\<exists>u\<in>set db. email u = Some (reg_email body)) = (Some (reg_email body) \<in> set (map email db))"
    by force
  show ?thesis
    unfolding register_cases eq by (simp add: Let_def row_of_def pwd_hash_def)
qed

theorem register_conflict_or_insert_witness:
  "register demo_libs demo_cfg demo_env
     \<lparr>reg_email = ''a@x.com'', reg_password = ''other12345'', reg_name = None\<rparr> demo_db
    = (Inl (HTTPException 409 ''A user with this email already exists.''), demo_db) \<and>
   (\<exists>row. register demo_libs demo_cfg (demo_env\<lparr>urandom16 := - 1\<rparr>)
       \<lparr>reg_email = ''new@x.com'', reg_password = ''longpassword1'', reg_name = None\<rparr> demo_db
      = (Inr \<lparr>success = True, user = Some (model_validate row),
              message = Some ''Registration successful.''\<rparr>, demo_db @ [row]) \<and>
      email row = Some ''new@x.com'' \<and> openId row = ''local_ffffffffffff4fff'') \<and>
   register demo_libs demo_cfg demo_env
     \<lparr>reg_email = ''new@x.com'', reg_password = ''longpassword1'', reg_name = None\<rparr> demo_db
    = (Inl IntegrityError, demo_db) \<and>
   register demo_libs demo_cfg demo_env
     \<lparr>reg_email = ''new@x.com'', reg_password = ''longpass'' @ [CHR 0x00], reg_name = None\<rparr> demo_db
    = (Inl PasswordValueError, demo_db)"
proof -
  let ?b1 = "\<lparr>reg_email = ''a@x.com'', reg_password = ''other12345'', reg_name = None\<rparr>"
  let ?b2 = "\<lparr>reg_email = ''new@x.com'', reg_password = ''longpassword1'', reg_name = None\<rparr>"
  let ?b3 = "\<lparr>reg_email = ''new@x.com'', reg_password = ''longpass'' @ [CHR 0x00], reg_name = None\<rparr>"
  let ?e = "demo_env\<lparr>urandom16 := - 1\<rparr>"
  have a: "Some (reg_email ?b1) \<in> set (map email demo_db)"
    by (simp add: demo_db_def)
  have b: "Some (reg_email ?b2) \<notin> set (map email demo_db)"
    by (simp add: demo_db_def)
  have b': "Some (reg_email ?b3) \<notin> set (map email demo_db)"
    by (simp add: demo_db_def)
  have p: "length (reg_password ?b2) \<le> MAX_PASSWORD_SIZE \<and> CHR 0x00 \<notin> set (reg_password ?b2)"
    by (simp add: MAX_PASSWORD_SIZE_def)
  have p': "length (reg_password ?b3) \<le> MAX_PASSWORD_SIZE \<and> CHR 0x00 \<in> set (reg_password ?b3)"
    by (simp add: MAX_PASSWORD_SIZE_def)
  have c: "new_open_id (urandom16 ?e) \<notin> set (map openId demo_db)"
    by (simp add: demo_db_def demo_env_def new_open_id_ones)
  have d: "new_open_id (urandom16 demo_env) \<in> set (map openId demo_db)"
    by (simp add: demo_db_def demo_env_def new_open_id_zero)
  have e: "new_open_id (urandom16 ?e) = ''local_ffffffffffff4fff''"
    by (simp add: demo_env_def new_open_id_ones)
  from register_conflict_or_insert [of ?b1 demo_db demo_libs demo_cfg demo_env] a
  have 1: "register demo_libs demo_cfg demo_env ?b1 demo_db
    = (Inl (HTTPException 409 ''A user with this email already exists.''), demo_db)"
    by blast
  from register_conflict_or_insert [of ?b2 demo_db demo_libs demo_cfg ?e] b p c
  have 2: "\<exists>row. register demo_libs demo_cfg ?e ?b2 demo_db
      = (Inr \<lparr>success = True, user = Some (model_validate row),
              message = Some ''Registration successful.''\<rparr>, demo_db @ [row]) \<and>
      email row = Some (reg_email ?b2) \<and> openId row = new_open_id (urandom16 ?e)"
    by blast
  from register_conflict_or_insert [of ?b2 demo_db demo_libs demo_cfg demo_env] b p d
  have 3: "register demo_libs demo_cfg demo_env ?b2 demo_db = (Inl IntegrityError, demo_db)"
    by blast
  from register_conflict_or_insert [of ?b3 demo_db demo_libs demo_cfg demo_env] b' p'
  have 4: "register demo_libs demo_cfg demo_env ?b3 demo_db = (Inl PasswordValueError, demo_db)"
    by blast
  from 1 2 3 4 show ?thesis unfolding e by simp
qed

subsection \<open>C7: the external identifier\<close>

text \<open>
  C7 as stated says that the sixteen hexadecimal characters after \<^verbatim>\<open>local_\<close> are
  sixteen characters of randomness, 64 bits. They are the first sixteen digits of a
  version-4 UUID, and the digit at index 12 of those is the version: two draws whose
  first 64 bits differ (all zero, and \<^verbatim>\<open>f\<close> in that digit) give the same identifier,
  and the identifier of the all-zero draw is not the sixteen digits of the draw.
\<close>

theorem open_id_entropy_counterexample:
  "take 16 (hex 0) \<noteq> take 16 (hex (push_bit 76 15)) \<and>
   new_open_id 0 = new_open_id (push_bit 76 15) \<and>
   drop 6 (new_open_id 0) \<noteq> take 16 (hex 0)"
  by code_simp

text \<open>
  C7, amended. Every external identifier that Register generates (the one stored and
  the one returned) is \<^verbatim>\<open>local_\<close> followed by exactly sixteen lower-case hexadecimal
  characters. The character at index 12 of the sixteen is always \<^verbatim>\<open>4\<close>; the other
  fifteen are the corresponding digits of the random bytes, so the identifier carries
  60 random bits.
\<close>

theorem register_open_id:
  assumes "register L cfg e body db = (Inr r, db')"
  shows "\<exists>u row s. user r = Some u \<and> db' = db @ [row] \<and> resp_openId u = openId row \<and>
           openId row = ''local_'' @ s \<and> length s = 16 \<and>
           set s \<subseteq> set ''0123456789abcdef'' \<and> s ! 12 = CHR ''4'' \<and>
           (\<forall>k<16. k \<noteq> 12 \<longrightarrow> s ! k = hex (urandom16 e) ! k)"
proof -
  obtain s where s: "new_open_id (urandom16 e) = ''local_'' @ s" "length s = 16"
      "set s \<subseteq> set ''0123456789abcdef''" "s ! 12 = CHR ''4''"
      "\<forall>k<16. k \<noteq> 12 \<longrightarrow> s ! k = hex (urandom16 e) ! k"
    using open_id_shape [of "urandom16 e"] by blast
  from assms obtain row where row: "db' = db @ [row]" "user r = Some (model_validate row)"
      "openId row = new_open_id (urandom16 e)"
    by (auto simp add: register_cases Let_def row_of_def split: if_splits sum.splits)
  have "resp_openId (model_validate row) = openId row"
    by (simp add: model_validate_def)
  with row s show ?thesis by metis
qed

theorem register_open_id_witness:
  "\<exists>r db'. register demo_libs demo_cfg (demo_env\<lparr>urandom16 := - 1\<rparr>)
        \<lparr>reg_email = ''d@x.com'', reg_password = ''longpassword1'', reg_name = None\<rparr> demo_db
        = (Inr r, db') \<and>
      (\<exists>u row s. user r = Some u \<and> db' = demo_db @ [row] \<and> resp_openId u = openId row \<and>
           openId row = ''local_'' @ s \<and> length s = 16 \<and> s ! 12 = CHR ''4'')"
proof -
  let ?e = "demo_env\<lparr>urandom16 := - 1\<rparr>"
  let ?b = "\<lparr>reg_email = ''d@x.com'', reg_password = ''longpassword1'', reg_name = None\<rparr>"
  have "\<exists>r db'. register demo_libs demo_cfg ?e ?b demo_db = (Inr r, db')"
    by (simp add: register_cases demo_hash demo_db_def demo_env_def new_open_id_ones Let_def)
  then obtain r d where h: "register demo_libs demo_cfg ?e ?b demo_db = (Inr r, d)"
    by blast
  from register_open_id [OF h] have
    "\<exists>u row s. user r = Some u \<and> d = demo_db @ [row] \<and> resp_openId u = openId row \<and>
           openId row = ''local_'' @ s \<and> length s = 16 \<and> s ! 12 = CHR ''4''"
    by blast
  with h show ?thesis by blast
qed

subsection \<open>C8: the role is one of the seven values\<close>

text \<open>
  C8. If every row of the store has a role among the seven values of the enumeration,
  so has every row after any sequence of requests; in particular every row of a
  store that starts empty has. Register assigns \<^verbatim>\<open>admin\<close> or \<^verbatim>\<open>user\<close> and nothing
  else, the default of the column is \<^verbatim>\<open>user\<close>, and the enumeration is the seven
  values the specification lists.
\<close>

theorem role_invariant:
  "((\<forall>u\<in>set db. role u \<in> set user_role) \<longrightarrow>
      (\<forall>u\<in>set (serve L cfg qs db). role u \<in> set user_role)) \<and>
   (\<forall>u\<in>set (serve L cfg qs []). role u \<in> set user_role) \<and>
   (role_for cfg em = ''admin'' \<or> role_for cfg em = ''user'') \<and>
   role_default = ''user'' \<and>
   set user_role = {''user'', ''admin'', ''super_admin'', ''airline_admin'', ''finance'', ''ops'', ''support''} \<and>
   length user_role = 7 \<and> distinct user_role"
proof -
  have 1: "(\<forall>u\<in>set db. role u \<in> set user_role) \<longrightarrow>
      (\<forall>u\<in>set (serve L cfg qs db). role u \<in> set user_role)"
    using serve_role [of db L cfg qs] by blast
  have 2: "\<forall>u\<in>set (serve L cfg qs []). role u \<in> set user_role"
    using serve_role [of "[]" L cfg qs] by simp
  have 3: "set user_role = {''user'', ''admin'', ''super_admin'', ''airline_admin'', ''finance'', ''ops'', ''support''}"
    by (simp add: user_role_def)
  have 4: "length user_role = 7 \<and> distinct user_role"
    by (simp add: user_role_def)
  from 1 2 3 4 role_for_cases [of cfg em] show ?thesis
    unfolding role_default_def by blast
qed

section \<open>Facts about Login and VerifyPassword\<close>

text \<open>Both handlers, with the session unfolded, are a case distinction on the outcome of
  the verification steps.\<close>

lemma login_cases:
  "login L body db =
     (case spec_verify L (login_email body) (login_password body) db of
        Inl err \<Rightarrow> (Inl err, db)
      | Inr v \<Rightarrow>
          (case v of
             Verified u \<Rightarrow>
               (Inr \<lparr>success = True, user = Some (model_validate u),
                     message = Some ''Login successful.''\<rparr>, db)
           | _ \<Rightarrow> (Inl (HTTPException 401 ''Invalid email or password.''), db)))"
  by (simp add: login_def spec_verify_def Let_def SessionLocal_def db_close_def
      query_first_by_email_def split: option.splits sum.splits)

lemma verify_password_cases:
  "verify_password L body db =
     (case spec_verify L (vp_email body) (vp_password body) db of
        Inl err \<Rightarrow> (Inl err, db)
      | Inr v \<Rightarrow>
          (case v of
             Unknown_or_passwordless \<Rightarrow>
               (Inr \<lparr>success = False, user = None,
                     message = Some ''User not found or no password set.''\<rparr>, db)
           | Mismatch \<Rightarrow>
               (Inr \<lparr>success = False, user = None,
                     message = Some ''Password does not match.''\<rparr>, db)
           | Verified u \<Rightarrow>
               (Inr \<lparr>success = True, user = Some (model_validate u),
                     message = Some ''Password verified.''\<rparr>, db)))"
  by (simp add: verify_password_def spec_verify_def Let_def SessionLocal_def db_close_def
      query_first_by_email_def split: option.splits sum.splits)

lemma spec_verify_unknown:
  "find (\<lambda>u. email u = Some em) db = None \<Longrightarrow> spec_verify L em pw db = Inr Unknown_or_passwordless"
  by (simp add: spec_verify_def)

lemma spec_verify_passwordless:
  "find (\<lambda>u. email u = Some em) db = Some u \<Longrightarrow> \<not> truthy (passwordHash u) \<Longrightarrow>
   spec_verify L em pw db = Inr Unknown_or_passwordless"
  by (simp add: spec_verify_def)

lemma spec_verify_mismatch:
  "find (\<lambda>u. email u = Some em) db = Some u \<Longrightarrow> passwordHash u = Some h \<Longrightarrow> h \<noteq> [] \<Longrightarrow>
   pwd_verify L pw h = Inr False \<Longrightarrow> spec_verify L em pw db = Inr Mismatch"
  by (simp add: spec_verify_def truthy_def)

lemma spec_verify_raises:
  "find (\<lambda>u. email u = Some em) db = Some u \<Longrightarrow> passwordHash u = Some h \<Longrightarrow> h \<noteq> [] \<Longrightarrow>
   pwd_verify L pw h = Inl err \<Longrightarrow> spec_verify L em pw db = Inl err"
  by (simp add: spec_verify_def truthy_def)

lemma spec_verify_verified:
  "spec_verify L em pw db = Inr (Verified u) \<Longrightarrow>
   find (\<lambda>u. email u = Some em) db = Some u \<and>
   (\<exists>h. passwordHash u = Some h \<and> h \<noteq> [] \<and> pwd_verify L pw h = Inr True)"
  by (auto simp add: spec_verify_def truthy_def split: option.splits if_splits sum.splits)

lemma spec_verify_raised:
  "spec_verify L em pw db = Inl err \<Longrightarrow>
   \<exists>u h. find (\<lambda>u. email u = Some em) db = Some u \<and> passwordHash u = Some h \<and> h \<noteq> [] \<and>
         pwd_verify L pw h = Inl err"
  by (auto simp add: spec_verify_def truthy_def split: option.splits if_splits sum.splits)

text \<open>When the library accepts the password and every stored hash, no verification
  raises.\<close>

lemma spec_verify_accepted:
  assumes "length pw \<le> MAX_PASSWORD_SIZE" "CHR 0x00 \<notin> set pw"
    and "\<forall>u\<in>set db. \<forall>h. passwordHash u = Some h \<and> h \<noteq> [] \<longrightarrow>
           bcrypt_identify h \<and> bcrypt_from_string L h"
  shows "\<exists>v. spec_verify L em pw db = Inr v"
proof (cases "spec_verify L em pw db")
  case (Inl err)
  from spec_verify_raised [OF Inl] obtain u h where
    u: "find (\<lambda>u. email u = Some em) db = Some u" "passwordHash u = Some h" "h \<noteq> []"
       "pwd_verify L pw h = Inl err"
    by blast
  from u(1) have "u \<in> set db" by (auto simp add: find_Some_iff)
  with assms(3) u(2,3) have "bcrypt_identify h \<and> bcrypt_from_string L h" by blast
  with assms(1,2) have "pwd_verify L pw h = Inr (bcrypt_consteq L pw h)"
    by (simp add: pwd_verify_accepts)
  with u(4) show ?thesis by simp
next
  case (Inr v)
  then show ?thesis by blast
qed

text \<open>The outcomes on the example rows.\<close>

lemma demo_verdicts:
  "spec_verify demo_libs ''ghost@x.com'' pw demo_db = Inr Unknown_or_passwordless"
  "spec_verify demo_libs ''b@x.com'' pw demo_db = Inr Unknown_or_passwordless"
  "spec_verify demo_libs ''c@x.com'' pw demo_db = Inr Unknown_or_passwordless"
  "spec_verify demo_libs ''a@x.com'' ''wrong'' demo_db = Inr Mismatch"
  "spec_verify demo_libs ''a@x.com'' ''longpassword1'' demo_db = Inr (Verified (hd demo_db))"
  "spec_verify demo_libs ''a@x.com'' [CHR 0x00] demo_db = Inl PasswordValueError"
  "spec_verify demo_libs ''a@x.com'' (replicate 4097 CHR ''p'') demo_db = Inl PasswordSizeError"
  by (simp_all add: spec_verify_def demo_db_def demo_libs_def truthy_def pwd_verify_def
      bcrypt_identify_def MAX_PASSWORD_SIZE_def)

lemma demo_hashes_parse:
  "\<forall>u\<in>set demo_db. \<forall>h. passwordHash u = Some h \<and> h \<noteq> [] \<longrightarrow>
     bcrypt_identify h \<and> bcrypt_from_string demo_libs h"
  by (simp add: demo_db_def demo_libs_def bcrypt_identify_def)

subsection \<open>C3: the error of a failed Login\<close>

text \<open>
  C3 as stated says that a failed Login always ends with the one error
  \<^verbatim>\<open>Invalid email or password.\<close>, so that the error does not tell whether the email is
  registered. A wrong password that the password library refuses is an exception the
  handler does not catch: for the registered \<^verbatim>\<open>a@x.com\<close>, the password made of the
  character NUL ends with \<^verbatim>\<open>PasswordValueError\<close> and a password of 4097 characters
  with \<^verbatim>\<open>PasswordSizeError\<close>, while the same password for an unknown email ends with
  the 401 error. The two answers differ, and the difference tells that the email is
  registered with a password.
\<close>

theorem login_library_error_counterexample:
  "login demo_libs \<lparr>login_email = ''a@x.com'', login_password = [CHR 0x00]\<rparr> demo_db
     = (Inl PasswordValueError, demo_db) \<and>
   login demo_libs \<lparr>login_email = ''ghost@x.com'', login_password = [CHR 0x00]\<rparr> demo_db
     = (Inl (HTTPException 401 ''Invalid email or password.''), demo_db) \<and>
   login demo_libs \<lparr>login_email = ''a@x.com'', login_password = replicate 4097 CHR ''p''\<rparr> demo_db
     = (Inl PasswordSizeError, demo_db) \<and>
   PasswordValueError \<noteq> HTTPException 401 ''Invalid email or password.''"
  by (simp add: login_cases demo_verdicts)

text \<open>
  C3, amended. Each of the three failures that the handler detects (no record with
  the email, a record without a password hash, a password that the library compares
  with the stored hash and finds different) ends with the same error value: status
  401, detail \<^verbatim>\<open>Invalid email or password.\<close>, and the store unchanged. When the library
  raises instead of comparing (a password longer than 4096 characters or holding NUL,
  a stored hash that is not a bcrypt hash), which only happens for a record that has a
  password hash, the request ends with the error of the library. No other error
  leaves the handler; and when the password and the stored hashes are ones the
  library accepts, the 401 error is the only one.
\<close>

theorem login_failure_uniform:
  "(find (\<lambda>u. email u = Some (login_email body)) db = None \<longrightarrow>
      login L body db = (Inl (HTTPException 401 ''Invalid email or password.''), db)) \<and>
   (\<forall>u. find (\<lambda>u. email u = Some (login_email body)) db = Some u \<and> \<not> truthy (passwordHash u) \<longrightarrow>
      login L body db = (Inl (HTTPException 401 ''Invalid email or password.''), db)) \<and>
   (\<forall>u h. find (\<lambda>u. email u = Some (login_email body)) db = Some u \<and> passwordHash u = Some h \<and>
          h \<noteq> [] \<and> pwd_verify L (login_password body) h = Inr False \<longrightarrow>
      login L body db = (Inl (HTTPException 401 ''Invalid email or password.''), db)) \<and>
   (\<forall>u h err. find (\<lambda>u. email u = Some (login_email body)) db = Some u \<and> passwordHash u = Some h \<and>
          h \<noteq> [] \<and> pwd_verify L (login_password body) h = Inl err \<longrightarrow>
      login L body db = (Inl err, db)) \<and>
   (\<forall>err. fst (login L body db) = Inl err \<longrightarrow>
      err = HTTPException 401 ''Invalid email or password.'' \<or>
      err = UnknownHashError \<or> err = PasswordSizeError \<or> err = MalformedHashError \<or>
      err = PasswordValueError) \<and>
   (length (login_password body) \<le> MAX_PASSWORD_SIZE \<and> CHR 0x00 \<notin> set (login_password body) \<and>
    (\<forall>u\<in>set db. \<forall>h. passwordHash u = Some h \<and> h \<noteq> [] \<longrightarrow>
        bcrypt_identify h \<and> bcrypt_from_string L h) \<longrightarrow>
      (\<forall>err. fst (login L body db) = Inl err \<longrightarrow>
         err = HTTPException 401 ''Invalid email or password.''))"
proof -
  let ?v = "spec_verify L (login_email body) (login_password body) db"
  have 1: "find (\<lambda>u. email u = Some (login_email body)) db = None \<longrightarrow>
      login L body db = (Inl (HTTPException 401 ''Invalid email or password.''), db)"
    by (simp add: login_cases spec_verify_unknown)
  have 2: "\<forall>u. find (\<lambda>u. email u = Some (login_email body)) db = Some u \<and> \<not> truthy (passwordHash u) \<longrightarrow>
      login L body db = (Inl (HTTPException 401 ''Invalid email or password.''), db)"
    by (simp add: login_cases spec_verify_passwordless)
  have 3: "\<forall>u h. find (\<lambda>u. email u = Some (login_email body)) db = Some u \<and> passwordHash u = Some h \<and>
          h \<noteq> [] \<and> pwd_verify L (login_password body) h = Inr False \<longrightarrow>
      login L body db = (Inl (HTTPException 401 ''Invalid email or password.''), db)"
    by (simp add: login_cases spec_verify_mismatch)
  have 4: "\<forall>u h err. find (\<lambda>u. email u = Some (login_email body)) db = Some u \<and> passwordHash u = Some h \<and>
          h \<noteq> [] \<and> pwd_verify L (login_password body) h = Inl err \<longrightarrow>
      login L body db = (Inl err, db)"
    by (simp add: login_cases spec_verify_raises)
  have 5: "\<forall>err. fst (login L body db) = Inl err \<longrightarrow>
      err = HTTPException 401 ''Invalid email or password.'' \<or>
      err = UnknownHashError \<or> err = PasswordSizeError \<or> err = MalformedHashError \<or>
      err = PasswordValueError"
  proof (intro allI impI)
    fix err assume a: "fst (login L body db) = Inl err"
    show "err = HTTPException 401 ''Invalid email or password.'' \<or>
      err = UnknownHashError \<or> err = PasswordSizeError \<or> err = MalformedHashError \<or>
      err = PasswordValueError"
    proof (cases ?v)
      case (Inl e)
      with a have "err = e" by (simp add: login_cases)
      moreover from spec_verify_raised [OF Inl] pwd_verify_raises
      have "e \<in> {UnknownHashError, PasswordSizeError, MalformedHashError, PasswordValueError}"
        by blast
      ultimately show ?thesis by blast
    next
      case (Inr v)
      with a show ?thesis by (cases v) (simp_all add: login_cases)
    qed
  qed
  have 6: "length (login_password body) \<le> MAX_PASSWORD_SIZE \<and> CHR 0x00 \<notin> set (login_password body) \<and>
    (\<forall>u\<in>set db. \<forall>h. passwordHash u = Some h \<and> h \<noteq> [] \<longrightarrow>
        bcrypt_identify h \<and> bcrypt_from_string L h) \<longrightarrow>
      (\<forall>err. fst (login L body db) = Inl err \<longrightarrow>
         err = HTTPException 401 ''Invalid email or password.'')"
  proof (intro allI impI)
    fix err
    assume g: "length (login_password body) \<le> MAX_PASSWORD_SIZE \<and> CHR 0x00 \<notin> set (login_password body) \<and>
      (\<forall>u\<in>set db. \<forall>h. passwordHash u = Some h \<and> h \<noteq> [] \<longrightarrow>
        bcrypt_identify h \<and> bcrypt_from_string L h)"
      and a: "fst (login L body db) = Inl err"
    from g spec_verify_accepted [of "login_password body" db L "login_email body"]
    obtain v where v: "?v = Inr v" by blast
    with a show "err = HTTPException 401 ''Invalid email or password.''"
      by (cases v) (simp_all add: login_cases)
  qed
  from 1 2 3 4 5 6 show ?thesis by (intro conjI)
qed

theorem login_failure_uniform_witness:
  "login demo_libs \<lparr>login_email = ''ghost@x.com'', login_password = ''x''\<rparr> demo_db
     = (Inl (HTTPException 401 ''Invalid email or password.''), demo_db) \<and>
   login demo_libs \<lparr>login_email = ''b@x.com'', login_password = ''x''\<rparr> demo_db
     = (Inl (HTTPException 401 ''Invalid email or password.''), demo_db) \<and>
   login demo_libs \<lparr>login_email = ''a@x.com'', login_password = ''wrong''\<rparr> demo_db
     = (Inl (HTTPException 401 ''Invalid email or password.''), demo_db) \<and>
   login demo_libs \<lparr>login_email = ''a@x.com'', login_password = [CHR 0x00]\<rparr> demo_db
     = (Inl PasswordValueError, demo_db)"
proof -
  let ?E = "(Inl (HTTPException 401 ''Invalid email or password.''), demo_db)"
  let ?b1 = "\<lparr>login_email = ''ghost@x.com'', login_password = ''x''\<rparr>"
  let ?b2 = "\<lparr>login_email = ''b@x.com'', login_password = ''x''\<rparr>"
  let ?b3 = "\<lparr>login_email = ''a@x.com'', login_password = ''wrong''\<rparr>"
  let ?b4 = "\<lparr>login_email = ''a@x.com'', login_password = [CHR 0x00]\<rparr>"
  let ?h = "''$2b$salt$longpassword1''"
  have f1: "find (\<lambda>u. email u = Some (login_email ?b1)) demo_db = None"
    by (simp add: demo_db_def)
  have f2: "find (\<lambda>u. email u = Some (login_email ?b2)) demo_db = Some (demo_db ! 1) \<and>
            \<not> truthy (passwordHash (demo_db ! 1))"
    by (simp add: demo_db_def truthy_def)
  have f3: "find (\<lambda>u. email u = Some (login_email ?b3)) demo_db = Some (demo_db ! 0) \<and>
            passwordHash (demo_db ! 0) = Some ?h \<and> ?h \<noteq> [] \<and>
            pwd_verify demo_libs (login_password ?b3) ?h = Inr False"
    by (simp add: demo_db_def demo_libs_def pwd_verify_def bcrypt_identify_def MAX_PASSWORD_SIZE_def)
  have f4: "find (\<lambda>u. email u = Some (login_email ?b4)) demo_db = Some (demo_db ! 0) \<and>
            passwordHash (demo_db ! 0) = Some ?h \<and> ?h \<noteq> [] \<and>
            pwd_verify demo_libs (login_password ?b4) ?h = Inl PasswordValueError"
    by (simp add: demo_db_def demo_libs_def pwd_verify_def bcrypt_identify_def MAX_PASSWORD_SIZE_def)
  from login_failure_uniform [of ?b1 demo_db demo_libs] f1 have 1: "login demo_libs ?b1 demo_db = ?E"
    by blast
  from login_failure_uniform [of ?b2 demo_db demo_libs] f2 have 2: "login demo_libs ?b2 demo_db = ?E"
    by blast
  from login_failure_uniform [of ?b3 demo_db demo_libs] f3 have 3: "login demo_libs ?b3 demo_db = ?E"
    by blast
  from login_failure_uniform [of ?b4 demo_db demo_libs] f4
  have 4: "login demo_libs ?b4 demo_db = (Inl PasswordValueError, demo_db)"
    by blast
  from 1 2 3 4 show ?thesis by (intro conjI)
qed

subsection \<open>C4: how VerifyPassword fails\<close>

text \<open>
  C4 as stated says that VerifyPassword never raises an error. The verification of the
  password library is called without a \<^verbatim>\<open>try\<close>: for the registered \<^verbatim>\<open>a@x.com\<close>, the
  password made of the character NUL, and a password of 4097 characters, end the
  request with the error of the library and not with a response. (The schema of
  VerifyPassword sets no limit on the password.)
\<close>

theorem verify_password_raises_counterexample:
  "verify_password demo_libs \<lparr>vp_email = ''a@x.com'', vp_password = [CHR 0x00]\<rparr> demo_db
     = (Inl PasswordValueError, demo_db) \<and>
   verify_password demo_libs \<lparr>vp_email = ''a@x.com'', vp_password = replicate 4097 CHR ''p''\<rparr> demo_db
     = (Inl PasswordSizeError, demo_db)"
  by (simp add: verify_password_cases demo_verdicts)

lemma verify_password_unknown:
  "find (\<lambda>u. email u = Some (vp_email body)) db = None \<Longrightarrow>
   verify_password L body db =
     (Inr \<lparr>success = False, user = None, message = Some ''User not found or no password set.''\<rparr>, db)"
  by (simp add: verify_password_cases spec_verify_unknown)

lemma verify_password_passwordless:
  "find (\<lambda>u. email u = Some (vp_email body)) db = Some u \<Longrightarrow> \<not> truthy (passwordHash u) \<Longrightarrow>
   verify_password L body db =
     (Inr \<lparr>success = False, user = None, message = Some ''User not found or no password set.''\<rparr>, db)"
  by (simp add: verify_password_cases spec_verify_passwordless)

lemma verify_password_mismatch:
  "find (\<lambda>u. email u = Some (vp_email body)) db = Some u \<Longrightarrow> passwordHash u = Some h \<Longrightarrow>
   h \<noteq> [] \<Longrightarrow> pwd_verify L (vp_password body) h = Inr False \<Longrightarrow>
   verify_password L body db =
     (Inr \<lparr>success = False, user = None, message = Some ''Password does not match.''\<rparr>, db)"
  by (simp add: verify_password_cases spec_verify_mismatch)

lemma verify_password_library_error:
  "find (\<lambda>u. email u = Some (vp_email body)) db = Some u \<Longrightarrow> passwordHash u = Some h \<Longrightarrow>
   h \<noteq> [] \<Longrightarrow> pwd_verify L (vp_password body) h = Inl err \<Longrightarrow>
   verify_password L body db = (Inl err, db)"
  by (simp add: verify_password_cases spec_verify_raises)

lemma verify_password_success:
  assumes "fst (verify_password L body db) = Inr r" "success r"
  shows "\<exists>u h. find (\<lambda>u. email u = Some (vp_email body)) db = Some u \<and> passwordHash u = Some h \<and>
           pwd_verify L (vp_password body) h = Inr True \<and> user r = Some (model_validate u)"
proof (cases "spec_verify L (vp_email body) (vp_password body) db")
  case (Inl err)
  with assms show ?thesis by (simp add: verify_password_cases)
next
  case (Inr v)
  show ?thesis
  proof (cases v)
    case Unknown_or_passwordless
    with Inr assms show ?thesis by (auto simp add: verify_password_cases)
  next
    case Mismatch
    with Inr assms show ?thesis by (auto simp add: verify_password_cases)
  next
    case (Verified u)
    with Inr have v: "spec_verify L (vp_email body) (vp_password body) db = Inr (Verified u)"
      by simp
    from spec_verify_verified [OF v] obtain h where
      h: "find (\<lambda>u. email u = Some (vp_email body)) db = Some u" "passwordHash u = Some h"
         "pwd_verify L (vp_password body) h = Inr True"
      by blast
    from assms v have "user r = Some (model_validate u)"
      by (auto simp add: verify_password_cases)
    with h show ?thesis by blast
  qed
qed

lemma verify_password_accepted:
  assumes "length (vp_password body) \<le> MAX_PASSWORD_SIZE" "CHR 0x00 \<notin> set (vp_password body)"
    and "\<forall>u\<in>set db. \<forall>h. passwordHash u = Some h \<and> h \<noteq> [] \<longrightarrow>
           bcrypt_identify h \<and> bcrypt_from_string L h"
  shows "\<exists>r. verify_password L body db = (Inr r, db)"
proof -
  from spec_verify_accepted [OF assms] obtain v where
    "spec_verify L (vp_email body) (vp_password body) db = Inr v" by blast
  then show ?thesis by (cases v) (simp_all add: verify_password_cases)
qed

text \<open>
  C4, amended. When the password library accepts the password (at most 4096
  characters, none of them NUL) and the stored hashes (bcrypt hashes that parse),
  VerifyPassword returns a response and never an error. In every case: when the email
  is unknown, or the record has no password hash, the response is \<^verbatim>\<open>success=false\<close>
  with the reason \<^verbatim>\<open>User not found or no password set.\<close>; when the library compares
  the password with the stored hash and finds it different, the response is
  \<^verbatim>\<open>success=false\<close> with the different reason \<^verbatim>\<open>Password does not match.\<close>; a response
  with \<^verbatim>\<open>success=true\<close> is only returned when the library has verified the password
  against the stored hash of the record found; and when the library raises, the
  request ends with that error. The store is never changed.
\<close>

theorem verify_password_soft:
  "(find (\<lambda>u. email u = Some (vp_email body)) db = None \<longrightarrow>
      verify_password L body db =
        (Inr \<lparr>success = False, user = None,
              message = Some ''User not found or no password set.''\<rparr>, db)) \<and>
   (\<forall>u. find (\<lambda>u. email u = Some (vp_email body)) db = Some u \<and> \<not> truthy (passwordHash u) \<longrightarrow>
      verify_password L body db =
        (Inr \<lparr>success = False, user = None,
              message = Some ''User not found or no password set.''\<rparr>, db)) \<and>
   (\<forall>u h. find (\<lambda>u. email u = Some (vp_email body)) db = Some u \<and> passwordHash u = Some h \<and>
        h \<noteq> [] \<and> pwd_verify L (vp_password body) h = Inr False \<longrightarrow>
      verify_password L body db =
        (Inr \<lparr>success = False, user = None, message = Some ''Password does not match.''\<rparr>, db)) \<and>
   (\<forall>u h err. find (\<lambda>u. email u = Some (vp_email body)) db = Some u \<and> passwordHash u = Some h \<and>
        h \<noteq> [] \<and> pwd_verify L (vp_password body) h = Inl err \<longrightarrow>
      verify_password L body db = (Inl err, db)) \<and>
   (\<forall>r. fst (verify_password L body db) = Inr r \<and> success r \<longrightarrow>
      (\<exists>u h. find (\<lambda>u. email u = Some (vp_email body)) db = Some u \<and> passwordHash u = Some h \<and>
         pwd_verify L (vp_password body) h = Inr True \<and> user r = Some (model_validate u))) \<and>
   ''User not found or no password set.'' \<noteq> ''Password does not match.'' \<and>
   (length (vp_password body) \<le> MAX_PASSWORD_SIZE \<and> CHR 0x00 \<notin> set (vp_password body) \<and>
    (\<forall>u\<in>set db. \<forall>h. passwordHash u = Some h \<and> h \<noteq> [] \<longrightarrow>
        bcrypt_identify h \<and> bcrypt_from_string L h) \<longrightarrow>
      (\<exists>r. verify_password L body db = (Inr r, db))) \<and>
   snd (verify_password L body db) = db"
proof -
  have 1: "find (\<lambda>u. email u = Some (vp_email body)) db = None \<longrightarrow>
      verify_password L body db =
        (Inr \<lparr>success = False, user = None,
              message = Some ''User not found or no password set.''\<rparr>, db)"
    using verify_password_unknown [of body db L] by blast
  have 2: "\<forall>u. find (\<lambda>u. email u = Some (vp_email body)) db = Some u \<and> \<not> truthy (passwordHash u) \<longrightarrow>
      verify_password L body db =
        (Inr \<lparr>success = False, user = None,
              message = Some ''User not found or no password set.''\<rparr>, db)"
    using verify_password_passwordless [of body db _ L] by blast
  have 3: "\<forall>u h. find (\<lambda>u. email u = Some (vp_email body)) db = Some u \<and> passwordHash u = Some h \<and>
        h \<noteq> [] \<and> pwd_verify L (vp_password body) h = Inr False \<longrightarrow>
      verify_password L body db =
        (Inr \<lparr>success = False, user = None, message = Some ''Password does not match.''\<rparr>, db)"
    using verify_password_mismatch [of body db _ _ L] by blast
  have 4: "\<forall>u h err. find (\<lambda>u. email u = Some (vp_email body)) db = Some u \<and> passwordHash u = Some h \<and>
        h \<noteq> [] \<and> pwd_verify L (vp_password body) h = Inl err \<longrightarrow>
      verify_password L body db = (Inl err, db)"
    using verify_password_library_error [of body db _ _ L] by blast
  have 5: "\<forall>r. fst (verify_password L body db) = Inr r \<and> success r \<longrightarrow>
      (\<exists>u h. find (\<lambda>u. email u = Some (vp_email body)) db = Some u \<and> passwordHash u = Some h \<and>
         pwd_verify L (vp_password body) h = Inr True \<and> user r = Some (model_validate u))"
    using verify_password_success [of L body db] by blast
  have 6: "''User not found or no password set.'' \<noteq> ''Password does not match.''"
    by simp
  have 7: "length (vp_password body) \<le> MAX_PASSWORD_SIZE \<and> CHR 0x00 \<notin> set (vp_password body) \<and>
    (\<forall>u\<in>set db. \<forall>h. passwordHash u = Some h \<and> h \<noteq> [] \<longrightarrow>
        bcrypt_identify h \<and> bcrypt_from_string L h) \<longrightarrow>
      (\<exists>r. verify_password L body db = (Inr r, db))"
    using verify_password_accepted [of body db L] by blast
  have 8: "snd (verify_password L body db) = db"
    by (rule verify_password_store)
  from 1 2 3 4 5 6 7 8 show ?thesis by (intro conjI)
qed

theorem verify_password_soft_witness:
  "verify_password demo_libs \<lparr>vp_email = ''ghost@x.com'', vp_password = ''x''\<rparr> demo_db
     = (Inr \<lparr>success = False, user = None, message = Some ''User not found or no password set.''\<rparr>, demo_db) \<and>
   verify_password demo_libs \<lparr>vp_email = ''b@x.com'', vp_password = ''x''\<rparr> demo_db
     = (Inr \<lparr>success = False, user = None, message = Some ''User not found or no password set.''\<rparr>, demo_db) \<and>
   verify_password demo_libs \<lparr>vp_email = ''a@x.com'', vp_password = ''wrong''\<rparr> demo_db
     = (Inr \<lparr>success = False, user = None, message = Some ''Password does not match.''\<rparr>, demo_db) \<and>
   verify_password demo_libs \<lparr>vp_email = ''a@x.com'', vp_password = [CHR 0x00]\<rparr> demo_db
     = (Inl PasswordValueError, demo_db) \<and>
   (\<exists>r. verify_password demo_libs \<lparr>vp_email = ''a@x.com'', vp_password = ''longpassword1''\<rparr> demo_db
     = (Inr r, demo_db) \<and> success r \<and>
     pwd_verify demo_libs ''longpassword1'' ''$2b$salt$longpassword1'' = Inr True)"
proof -
  let ?b1 = "\<lparr>vp_email = ''ghost@x.com'', vp_password = ''x''\<rparr>"
  let ?b2 = "\<lparr>vp_email = ''b@x.com'', vp_password = ''x''\<rparr>"
  let ?b3 = "\<lparr>vp_email = ''a@x.com'', vp_password = ''wrong''\<rparr>"
  let ?b4 = "\<lparr>vp_email = ''a@x.com'', vp_password = ''longpassword1''\<rparr>"
  let ?b5 = "\<lparr>vp_email = ''a@x.com'', vp_password = [CHR 0x00]\<rparr>"
  let ?A = "\<lparr>success = False, user = None, message = Some ''User not found or no password set.''\<rparr>"
  let ?B = "\<lparr>success = False, user = None, message = Some ''Password does not match.''\<rparr>"
  let ?h = "''$2b$salt$longpassword1''"
  have f1: "find (\<lambda>u. email u = Some (vp_email ?b1)) demo_db = None"
    by (simp add: demo_db_def)
  have f2: "find (\<lambda>u. email u = Some (vp_email ?b2)) demo_db = Some (demo_db ! 1) \<and>
            \<not> truthy (passwordHash (demo_db ! 1))"
    by (simp add: demo_db_def truthy_def)
  have f3: "find (\<lambda>u. email u = Some (vp_email ?b3)) demo_db = Some (demo_db ! 0) \<and>
            passwordHash (demo_db ! 0) = Some ?h \<and> ?h \<noteq> [] \<and>
            pwd_verify demo_libs (vp_password ?b3) ?h = Inr False"
    by (simp add: demo_db_def demo_libs_def pwd_verify_def bcrypt_identify_def MAX_PASSWORD_SIZE_def)
  have f5: "find (\<lambda>u. email u = Some (vp_email ?b5)) demo_db = Some (demo_db ! 0) \<and>
            passwordHash (demo_db ! 0) = Some ?h \<and> ?h \<noteq> [] \<and>
            pwd_verify demo_libs (vp_password ?b5) ?h = Inl PasswordValueError"
    by (simp add: demo_db_def demo_libs_def pwd_verify_def bcrypt_identify_def MAX_PASSWORD_SIZE_def)
  have g4: "length (vp_password ?b4) \<le> MAX_PASSWORD_SIZE \<and> CHR 0x00 \<notin> set (vp_password ?b4)"
    by (simp add: MAX_PASSWORD_SIZE_def)
  have v4: "verify_password demo_libs ?b4 demo_db =
      (Inr \<lparr>success = True, user = Some (model_validate (hd demo_db)),
            message = Some ''Password verified.''\<rparr>, demo_db)"
    by (simp add: verify_password_cases demo_verdicts)
  have p4: "pwd_verify demo_libs ''longpassword1'' ?h = Inr True"
    by (simp add: demo_libs_def pwd_verify_def bcrypt_identify_def MAX_PASSWORD_SIZE_def)
  from verify_password_soft [of ?b1 demo_db demo_libs] f1
  have 1: "verify_password demo_libs ?b1 demo_db = (Inr ?A, demo_db)"
    by blast
  from verify_password_soft [of ?b2 demo_db demo_libs] f2
  have 2: "verify_password demo_libs ?b2 demo_db = (Inr ?A, demo_db)"
    by blast
  from verify_password_soft [of ?b3 demo_db demo_libs] f3
  have 3: "verify_password demo_libs ?b3 demo_db = (Inr ?B, demo_db)"
    by blast
  from verify_password_soft [of ?b5 demo_db demo_libs] f5
  have 5: "verify_password demo_libs ?b5 demo_db = (Inl PasswordValueError, demo_db)"
    by blast
  from verify_password_soft [of ?b4 demo_db demo_libs] g4 demo_hashes_parse
  have "\<exists>r. verify_password demo_libs ?b4 demo_db = (Inr r, demo_db)"
    by blast
  with v4 p4 have 4: "\<exists>r. verify_password demo_libs ?b4 demo_db = (Inr r, demo_db) \<and> success r \<and>
      pwd_verify demo_libs ''longpassword1'' ?h = Inr True"
    by simp
  from 1 2 3 5 4 show ?thesis by (intro conjI)
qed

subsection \<open>C5: Login and VerifyPassword take the same steps\<close>

text \<open>
  C5. For every email, password and store, Login and VerifyPassword are both
  determined by the one outcome of the verification steps of the specification: Login
  succeeds exactly when VerifyPassword returns \<^verbatim>\<open>success=true\<close>, with the same user in
  both responses; the verdict that makes Login fail is the one VerifyPassword reports
  in its reason; where the verification raises, both end with that same error; and
  neither changes the store.
\<close>

theorem login_verify_password_same_steps:
  "login L \<lparr>login_email = em, login_password = pw\<rparr> db =
     (case spec_verify L em pw db of
        Inl err \<Rightarrow> (Inl err, db)
      | Inr v \<Rightarrow>
          (case v of
             Verified u \<Rightarrow>
               (Inr \<lparr>success = True, user = Some (model_validate u),
                     message = Some ''Login successful.''\<rparr>, db)
           | _ \<Rightarrow> (Inl (HTTPException 401 ''Invalid email or password.''), db))) \<and>
   verify_password L \<lparr>vp_email = em, vp_password = pw\<rparr> db =
     (case spec_verify L em pw db of
        Inl err \<Rightarrow> (Inl err, db)
      | Inr v \<Rightarrow>
          (case v of
             Unknown_or_passwordless \<Rightarrow>
               (Inr \<lparr>success = False, user = None,
                     message = Some ''User not found or no password set.''\<rparr>, db)
           | Mismatch \<Rightarrow>
               (Inr \<lparr>success = False, user = None,
                     message = Some ''Password does not match.''\<rparr>, db)
           | Verified u \<Rightarrow>
               (Inr \<lparr>success = True, user = Some (model_validate u),
                     message = Some ''Password verified.''\<rparr>, db))) \<and>
   ((\<exists>r. fst (login L \<lparr>login_email = em, login_password = pw\<rparr> db) = Inr r) =
    (\<exists>r. fst (verify_password L \<lparr>vp_email = em, vp_password = pw\<rparr> db) = Inr r \<and> success r)) \<and>
   (case fst (verify_password L \<lparr>vp_email = em, vp_password = pw\<rparr> db) of
      Inr r \<Rightarrow>
        (case fst (login L \<lparr>login_email = em, login_password = pw\<rparr> db) of
           Inr r' \<Rightarrow> success r \<and> user r' = user r
         | Inl err \<Rightarrow> \<not> success r \<and> user r = None \<and>
             err = HTTPException 401 ''Invalid email or password.'')
    | Inl err \<Rightarrow> fst (login L \<lparr>login_email = em, login_password = pw\<rparr> db) = Inl err) \<and>
   ((\<exists>v. spec_verify L em pw db = Inr v) \<longrightarrow>
      (\<exists>r. fst (verify_password L \<lparr>vp_email = em, vp_password = pw\<rparr> db) = Inr r \<and>
         (case fst (login L \<lparr>login_email = em, login_password = pw\<rparr> db) of
            Inr r' \<Rightarrow> success r \<and> user r' = user r
          | Inl err \<Rightarrow> \<not> success r \<and> user r = None)))"
proof (cases "spec_verify L em pw db")
  case (Inl err)
  then show ?thesis by (simp add: login_cases verify_password_cases)
next
  case (Inr v)
  then show ?thesis by (cases v) (simp_all add: login_cases verify_password_cases)
qed

theorem login_verify_password_same_steps_witness:
  "(\<exists>r. fst (login demo_libs \<lparr>login_email = ''a@x.com'', login_password = ''longpassword1''\<rparr> demo_db) = Inr r) \<and>
   (\<exists>r. fst (verify_password demo_libs \<lparr>vp_email = ''a@x.com'', vp_password = ''longpassword1''\<rparr> demo_db) = Inr r \<and> success r) \<and>
   fst (login demo_libs \<lparr>login_email = ''a@x.com'', login_password = ''wrong''\<rparr> demo_db)
     = Inl (HTTPException 401 ''Invalid email or password.'') \<and>
   fst (verify_password demo_libs \<lparr>vp_email = ''a@x.com'', vp_password = ''wrong''\<rparr> demo_db)
     = Inr \<lparr>success = False, user = None, message = Some ''Password does not match.''\<rparr> \<and>
   fst (login demo_libs \<lparr>login_email = ''a@x.com'', login_password = [CHR 0x00]\<rparr> demo_db)
     = Inl PasswordValueError \<and>
   fst (verify_password demo_libs \<lparr>vp_email = ''a@x.com'', vp_password = [CHR 0x00]\<rparr> demo_db)
     = Inl PasswordValueError"
  using login_verify_password_same_steps [of demo_libs "''a@x.com''" "''longpassword1''" demo_db]
    login_verify_password_same_steps [of demo_libs "''a@x.com''" "''wrong''" demo_db]
    login_verify_password_same_steps [of demo_libs "''a@x.com''" "[CHR 0x00]" demo_db]
  by (simp add: demo_verdicts)

subsection \<open>C6: Login never writes\<close>

text \<open>A Login request leaves the store as it is, whether its body is rejected, the
  credentials fail or they are accepted; so does any sequence of Login requests.\<close>

lemma post_auth_login_store: "snd (post_auth_login L b db) = db"
  by (simp add: post_auth_login_def login_store split: option.splits)

lemma serve_logins: "serve L cfg (map (\<lambda>(e, b). (e, Login b)) xs) db = db"
  by (induction xs) (auto simp add: post_auth_login_store)

lemma login_success:
  assumes "fst (login L body db) = Inr r"
  shows "\<exists>u. find (\<lambda>u. email u = Some (login_email body)) db = Some u \<and>
             user r = Some (model_validate u)"
proof (cases "spec_verify L (login_email body) (login_password body) db")
  case (Inl err)
  with assms show ?thesis by (simp add: login_cases)
next
  case (Inr v)
  show ?thesis
  proof (cases v)
    case Unknown_or_passwordless
    with Inr assms show ?thesis by (simp add: login_cases)
  next
    case Mismatch
    with Inr assms show ?thesis by (simp add: login_cases)
  next
    case (Verified u)
    with Inr have v: "spec_verify L (login_email body) (login_password body) db = Inr (Verified u)"
      by simp
    with assms spec_verify_verified [OF v] show ?thesis
      by (auto simp add: login_cases)
  qed
qed

text \<open>
  C6. Login never changes the store: after the handler (and after the endpoint, when
  validation comes first) the store is the one it started from, so no
  \<^verbatim>\<open>lastSignedIn\<close> is touched. On success the user of the response is read off the
  record that the lookup found, a row of that unchanged store. A sequence of Login
  requests of any length, failed or not, leaves the store exactly as it was.
\<close>

theorem login_never_mutates:
  "snd (login L body db) = db \<and>
   snd (post_auth_login L b db) = db \<and>
   map lastSignedIn (snd (login L body db)) = map lastSignedIn db \<and>
   (\<forall>r. fst (login L body db) = Inr r \<longrightarrow>
      (\<exists>u. find (\<lambda>u. email u = Some (login_email body)) db = Some u \<and> u \<in> set db \<and>
           user r = Some (model_validate u))) \<and>
   serve L cfg (map (\<lambda>(e, b). (e, Login b)) xs) db = db"
proof -
  have "\<forall>r. fst (login L body db) = Inr r \<longrightarrow>
      (\<exists>u. find (\<lambda>u. email u = Some (login_email body)) db = Some u \<and> u \<in> set db \<and>
           user r = Some (model_validate u))"
  proof (intro allI impI)
    fix r assume "fst (login L body db) = Inr r"
    from login_success [OF this] obtain u where
      u: "find (\<lambda>u. email u = Some (login_email body)) db = Some u" "user r = Some (model_validate u)"
      by blast
    from u(1) have "u \<in> set db"
      by (auto simp add: find_Some_iff)
    with u show "\<exists>u. find (\<lambda>u. email u = Some (login_email body)) db = Some u \<and> u \<in> set db \<and>
           user r = Some (model_validate u)"
      by blast
  qed
  then show ?thesis
    by (simp add: login_store post_auth_login_store serve_logins)
qed

theorem login_never_mutates_witness:
  "serve demo_libs demo_cfg
     [(demo_env, Login \<lparr>body_email = ''a@x.com'', body_password = ''wrong'', body_name = None\<rparr>),
      (demo_env, Login \<lparr>body_email = ''ghost@x.com'', body_password = ''x'', body_name = None\<rparr>),
      (demo_env, Login \<lparr>body_email = ''a@x.com'', body_password = ''wrong'', body_name = None\<rparr>)]
     demo_db = demo_db \<and>
   (\<exists>r. login demo_libs \<lparr>login_email = ''a@x.com'', login_password = ''longpassword1''\<rparr> demo_db
        = (Inr r, demo_db) \<and>
      user r = Some (model_validate (hd demo_db)) \<and> hd demo_db \<in> set demo_db \<and>
      lastSignedIn (hd demo_db) = 1)"
proof -
  let ?b = "\<lparr>login_email = ''a@x.com'', login_password = ''longpassword1''\<rparr>"
  let ?xs = "[(demo_env, \<lparr>body_email = ''a@x.com'', body_password = ''wrong'', body_name = None\<rparr>),
      (demo_env, \<lparr>body_email = ''ghost@x.com'', body_password = ''x'', body_name = None\<rparr>),
      (demo_env, \<lparr>body_email = ''a@x.com'', body_password = ''wrong'', body_name = None\<rparr>)]"
  have v: "login demo_libs ?b demo_db =
     (Inr \<lparr>success = True, user = Some (model_validate (hd demo_db)),
           message = Some ''Login successful.''\<rparr>, demo_db)"
    by (simp add: login_cases demo_verdicts)
  have m: "hd demo_db \<in> set demo_db \<and> lastSignedIn (hd demo_db) = 1"
    by (simp add: demo_db_def)
  from login_never_mutates [of demo_libs ?b demo_db "snd (hd ?xs)" demo_cfg ?xs]
  have "serve demo_libs demo_cfg (map (\<lambda>(e, b). (e, Login b)) ?xs) demo_db = demo_db"
    by (elim conjE) assumption
  then show ?thesis using v m by simp
qed

subsection \<open>C9: the password length is checked before the handler\<close>

lemma validate_RegisterRequest_Some:
  "validate_RegisterRequest L b = Some body \<Longrightarrow>
   8 \<le> length (body_password b) \<and> length (body_password b) \<le> 128 \<and>
   reg_password body = body_password b \<and> EmailStr L (body_email b) = Some (reg_email body) \<and>
   reg_name body = body_name b"
  by (auto simp add: validate_RegisterRequest_def split: option.splits if_splits)

text \<open>
  C9. A Register request whose password is shorter than 8 or longer than 128
  characters is rejected by the schema: the handler is not called, the answer is the
  validation error whatever the store holds, and the store is returned as it was. The
  range is inclusive: a body reaches the handler only with a password of 8 to 128
  characters, and with a valid email every such password does reach it.
\<close>

theorem register_password_length_validated:
  "(length (body_password b) < 8 \<or> 128 < length (body_password b) \<longrightarrow>
      validate_RegisterRequest L b = None \<and>
      post_auth_register L cfg e b db = (Inl RequestValidationError, db)) \<and>
   (\<forall>body. validate_RegisterRequest L b = Some body \<longrightarrow>
      8 \<le> length (reg_password body) \<and> length (reg_password body) \<le> 128 \<and>
      post_auth_register L cfg e b db = register L cfg e body db) \<and>
   (8 \<le> length (body_password b) \<and> length (body_password b) \<le> 128 \<and>
    EmailStr L (body_email b) = Some em \<longrightarrow>
      post_auth_register L cfg e b db =
        register L cfg e \<lparr>reg_email = em, reg_password = body_password b, reg_name = body_name b\<rparr> db)"
proof -
  have 1: "length (body_password b) < 8 \<or> 128 < length (body_password b) \<longrightarrow>
      validate_RegisterRequest L b = None \<and>
      post_auth_register L cfg e b db = (Inl RequestValidationError, db)"
    by (auto simp add: post_auth_register_def validate_RegisterRequest_def split: option.splits)
  have 2: "\<forall>body. validate_RegisterRequest L b = Some body \<longrightarrow>
      8 \<le> length (reg_password body) \<and> length (reg_password body) \<le> 128 \<and>
      post_auth_register L cfg e b db = register L cfg e body db"
    using validate_RegisterRequest_Some [of L b]
    by (auto simp add: post_auth_register_def)
  have 3: "8 \<le> length (body_password b) \<and> length (body_password b) \<le> 128 \<and>
    EmailStr L (body_email b) = Some em \<longrightarrow>
      post_auth_register L cfg e b db =
        register L cfg e \<lparr>reg_email = em, reg_password = body_password b, reg_name = body_name b\<rparr> db"
    by (simp add: post_auth_register_def validate_RegisterRequest_def)
  from 1 2 3 show ?thesis by (intro conjI)
qed

theorem register_password_length_validated_witness:
  "post_auth_register demo_libs demo_cfg demo_env
      \<lparr>body_email = ''e@x.com'', body_password = ''1234567'', body_name = None\<rparr> demo_db
     = (Inl RequestValidationError, demo_db) \<and>
   post_auth_register demo_libs demo_cfg demo_env
      \<lparr>body_email = ''e@x.com'', body_password = replicate 129 CHR ''p'', body_name = None\<rparr> demo_db
     = (Inl RequestValidationError, demo_db) \<and>
   post_auth_register demo_libs demo_cfg demo_env
      \<lparr>body_email = ''e@x.com'', body_password = ''12345678'', body_name = None\<rparr> demo_db
     = register demo_libs demo_cfg demo_env
        \<lparr>reg_email = ''e@x.com'', reg_password = ''12345678'', reg_name = None\<rparr> demo_db \<and>
   post_auth_register demo_libs demo_cfg demo_env
      \<lparr>body_email = ''e@x.com'', body_password = replicate 128 CHR ''p'', body_name = None\<rparr> demo_db
     = register demo_libs demo_cfg demo_env
        \<lparr>reg_email = ''e@x.com'', reg_password = replicate 128 CHR ''p'', reg_name = None\<rparr> demo_db"
proof -
  let ?b1 = "\<lparr>body_email = ''e@x.com'', body_password = ''1234567'', body_name = None\<rparr>"
  let ?b2 = "\<lparr>body_email = ''e@x.com'', body_password = replicate 129 CHR ''p'', body_name = None\<rparr>"
  let ?b3 = "\<lparr>body_email = ''e@x.com'', body_password = ''12345678'', body_name = None\<rparr>"
  let ?b4 = "\<lparr>body_email = ''e@x.com'', body_password = replicate 128 CHR ''p'', body_name = None\<rparr>"
  have h1: "length (body_password ?b1) < 8" by simp
  have h2: "128 < length (body_password ?b2)" by simp
  have em: "EmailStr demo_libs ''e@x.com'' = Some ''e@x.com''" by (simp add: demo_libs_def)
  have h3: "8 \<le> length (body_password ?b3) \<and> length (body_password ?b3) \<le> 128 \<and>
            EmailStr demo_libs (body_email ?b3) = Some ''e@x.com''"
    using em by simp
  have h4: "8 \<le> length (body_password ?b4) \<and> length (body_password ?b4) \<le> 128 \<and>
            EmailStr demo_libs (body_email ?b4) = Some ''e@x.com''"
    using em by simp
  from register_password_length_validated [of ?b1 demo_libs demo_cfg demo_env demo_db "''e@x.com''"] h1
  have 1: "post_auth_register demo_libs demo_cfg demo_env ?b1 demo_db = (Inl RequestValidationError, demo_db)"
    by (elim conjE) simp
  from register_password_length_validated [of ?b2 demo_libs demo_cfg demo_env demo_db "''e@x.com''"] h2
  have 2: "post_auth_register demo_libs demo_cfg demo_env ?b2 demo_db = (Inl RequestValidationError, demo_db)"
    by (elim conjE) simp
  from register_password_length_validated [of ?b3 demo_libs demo_cfg demo_env demo_db "''e@x.com''"] h3
  have 3: "post_auth_register demo_libs demo_cfg demo_env ?b3 demo_db
     = register demo_libs demo_cfg demo_env
        \<lparr>reg_email = ''e@x.com'', reg_password = ''12345678'', reg_name = None\<rparr> demo_db"
    by (elim conjE) simp
  from register_password_length_validated [of ?b4 demo_libs demo_cfg demo_env demo_db "''e@x.com''"] h4
  have 4: "post_auth_register demo_libs demo_cfg demo_env ?b4 demo_db
     = register demo_libs demo_cfg demo_env
        \<lparr>reg_email = ''e@x.com'', reg_password = replicate 128 CHR ''p'', reg_name = None\<rparr> demo_db"
    by (elim conjE) simp
  from 1 2 3 4 show ?thesis by (intro conjI)
qed

subsection \<open>C10: VerifyPassword validates nothing\<close>

text \<open>
  C10 as stated says that VerifyPassword returns a soft result for every input pair.
  Its schema does accept every pair, and so the handler receives passwords that the
  password library refuses: for the registered \<^verbatim>\<open>a@x.com\<close>, the password made of the
  character NUL, and a password of 4097 characters, end the request with the error of
  the library, which is neither a soft result nor a validation rejection.
\<close>

theorem post_auth_verify_password_counterexample:
  "post_auth_verify_password demo_libs
      \<lparr>body_email = ''a@x.com'', body_password = [CHR 0x00], body_name = None\<rparr> demo_db
     = (Inl PasswordValueError, demo_db) \<and>
   post_auth_verify_password demo_libs
      \<lparr>body_email = ''a@x.com'', body_password = replicate 4097 CHR ''p'', body_name = None\<rparr> demo_db
     = (Inl PasswordSizeError, demo_db)"
  by (simp add: post_auth_verify_password_def validate_VerifyPasswordRequest_def
      verify_password_cases demo_verdicts)

lemma spec_verify_no_hash:
  assumes "\<forall>u\<in>set db. email u = Some em \<longrightarrow> \<not> truthy (passwordHash u)"
  shows "spec_verify L em pw db = Inr Unknown_or_passwordless"
proof (cases "find (\<lambda>u. email u = Some em) db")
  case None
  then show ?thesis by (rule spec_verify_unknown)
next
  case (Some u)
  then have "u \<in> set db \<and> email u = Some em"
    by (auto simp add: find_Some_iff)
  with assms have "\<not> truthy (passwordHash u)" by blast
  with Some show ?thesis by (rule spec_verify_passwordless)
qed

lemma post_auth_verify_password_eq:
  "post_auth_verify_password L b db =
     verify_password L \<lparr>vp_email = body_email b, vp_password = body_password b\<rparr> db"
  by (simp add: post_auth_verify_password_def validate_VerifyPasswordRequest_def)

lemma verify_password_errors:
  assumes "fst (verify_password L body db) = Inl err"
  shows "err \<in> {UnknownHashError, PasswordSizeError, MalformedHashError, PasswordValueError}"
proof (cases "spec_verify L (vp_email body) (vp_password body) db")
  case (Inl e)
  with assms have "err = e" by (simp add: verify_password_cases)
  with spec_verify_raised [OF Inl] pwd_verify_raises show ?thesis by blast
next
  case (Inr v)
  with assms show ?thesis by (cases v) (simp_all add: verify_password_cases)
qed

text \<open>
  C10, amended. The schema of VerifyPassword accepts every pair of strings, the empty
  email, an email that is no address and the empty password among them: the endpoint
  always calls the handler and never answers with the validation error. When no record
  with that email has a password hash, the response is \<^verbatim>\<open>success=false\<close> with the reason
  \<^verbatim>\<open>User not found or no password set.\<close>. In the other cases the handler returns a
  response whenever the password library accepts the password and the stored hashes;
  a password it refuses (longer than 4096 characters, or holding NUL) is not stopped by
  the schema and ends the request with the error of the library. Register and Login
  reject a body when its email is not accepted as an address or its password is empty.
\<close>

theorem verify_password_unvalidated:
  "validate_VerifyPasswordRequest L b =
     Some \<lparr>vp_email = body_email b, vp_password = body_password b\<rparr> \<and>
   post_auth_verify_password L b db =
     verify_password L \<lparr>vp_email = body_email b, vp_password = body_password b\<rparr> db \<and>
   fst (post_auth_verify_password L b db) \<noteq> Inl RequestValidationError \<and>
   ((\<forall>u\<in>set db. email u = Some (body_email b) \<longrightarrow> \<not> truthy (passwordHash u)) \<longrightarrow>
      post_auth_verify_password L b db =
        (Inr \<lparr>success = False, user = None,
              message = Some ''User not found or no password set.''\<rparr>, db)) \<and>
   (length (body_password b) \<le> MAX_PASSWORD_SIZE \<and> CHR 0x00 \<notin> set (body_password b) \<and>
    (\<forall>u\<in>set db. \<forall>h. passwordHash u = Some h \<and> h \<noteq> [] \<longrightarrow>
        bcrypt_identify h \<and> bcrypt_from_string L h) \<longrightarrow>
      (\<exists>r. post_auth_verify_password L b db = (Inr r, db))) \<and>
   (EmailStr L (body_email b) = None \<or> body_password b = [] \<longrightarrow>
      post_auth_login L b db = (Inl RequestValidationError, db) \<and>
      post_auth_register L cfg e b db = (Inl RequestValidationError, db))"
proof -
  let ?body = "\<lparr>vp_email = body_email b, vp_password = body_password b\<rparr>"
  have 1: "validate_VerifyPasswordRequest L b = Some ?body"
    by (simp add: validate_VerifyPasswordRequest_def)
  have 2: "post_auth_verify_password L b db = verify_password L ?body db"
    by (rule post_auth_verify_password_eq)
  have 3: "fst (post_auth_verify_password L b db) \<noteq> Inl RequestValidationError"
    using verify_password_errors [of L ?body db RequestValidationError]
    by (auto simp add: post_auth_verify_password_eq)
  have 4: "(\<forall>u\<in>set db. email u = Some (body_email b) \<longrightarrow> \<not> truthy (passwordHash u)) \<longrightarrow>
      post_auth_verify_password L b db =
        (Inr \<lparr>success = False, user = None,
              message = Some ''User not found or no password set.''\<rparr>, db)"
  proof
    assume "\<forall>u\<in>set db. email u = Some (body_email b) \<longrightarrow> \<not> truthy (passwordHash u)"
    then have "spec_verify L (body_email b) (body_password b) db = Inr Unknown_or_passwordless"
      by (rule spec_verify_no_hash)
    then show "post_auth_verify_password L b db =
        (Inr \<lparr>success = False, user = None,
              message = Some ''User not found or no password set.''\<rparr>, db)"
      by (simp add: post_auth_verify_password_eq verify_password_cases)
  qed
  have 5: "length (body_password b) \<le> MAX_PASSWORD_SIZE \<and> CHR 0x00 \<notin> set (body_password b) \<and>
    (\<forall>u\<in>set db. \<forall>h. passwordHash u = Some h \<and> h \<noteq> [] \<longrightarrow>
        bcrypt_identify h \<and> bcrypt_from_string L h) \<longrightarrow>
      (\<exists>r. post_auth_verify_password L b db = (Inr r, db))"
    using verify_password_accepted [of ?body db L]
    by (simp add: post_auth_verify_password_eq)
  have 6: "EmailStr L (body_email b) = None \<or> body_password b = [] \<longrightarrow>
      post_auth_login L b db = (Inl RequestValidationError, db) \<and>
      post_auth_register L cfg e b db = (Inl RequestValidationError, db)"
    by (auto simp add: post_auth_login_def post_auth_register_def validate_LoginRequest_def
        validate_RegisterRequest_def split: option.splits)
  from 1 2 3 4 5 6 show ?thesis by (intro conjI)
qed

theorem verify_password_unvalidated_witness:
  "post_auth_verify_password demo_libs
      \<lparr>body_email = [], body_password = [], body_name = None\<rparr> demo_db
     = (Inr \<lparr>success = False, user = None,
            message = Some ''User not found or no password set.''\<rparr>, demo_db) \<and>
   post_auth_verify_password demo_libs
      \<lparr>body_email = ''not an email'', body_password = ''x'', body_name = None\<rparr> demo_db
     = (Inr \<lparr>success = False, user = None,
            message = Some ''User not found or no password set.''\<rparr>, demo_db) \<and>
   (\<exists>r. post_auth_verify_password demo_libs
      \<lparr>body_email = ''a@x.com'', body_password = [], body_name = None\<rparr> demo_db
     = (Inr r, demo_db)) \<and>
   post_auth_login demo_libs
      \<lparr>body_email = [], body_password = [], body_name = None\<rparr> demo_db
     = (Inl RequestValidationError, demo_db) \<and>
   post_auth_register demo_libs demo_cfg demo_env
      \<lparr>body_email = ''not an email'', body_password = ''x'', body_name = None\<rparr> demo_db
     = (Inl RequestValidationError, demo_db)"
proof -
  let ?b1 = "\<lparr>body_email = [], body_password = [], body_name = None\<rparr>"
  let ?b2 = "\<lparr>body_email = ''not an email'', body_password = ''x'', body_name = None\<rparr>"
  let ?b3 = "\<lparr>body_email = ''a@x.com'', body_password = [], body_name = None\<rparr>"
  let ?A = "\<lparr>success = False, user = None, message = Some ''User not found or no password set.''\<rparr>"
  have h1: "\<forall>u\<in>set demo_db. email u = Some (body_email ?b1) \<longrightarrow> \<not> truthy (passwordHash u)"
    by (simp add: demo_db_def)
  have h2: "\<forall>u\<in>set demo_db. email u = Some (body_email ?b2) \<longrightarrow> \<not> truthy (passwordHash u)"
    by (simp add: demo_db_def)
  have h3: "length (body_password ?b3) \<le> MAX_PASSWORD_SIZE \<and> CHR 0x00 \<notin> set (body_password ?b3)"
    by (simp add: MAX_PASSWORD_SIZE_def)
  have g1: "EmailStr demo_libs (body_email ?b1) = None \<or> body_password ?b1 = []"
    by simp
  have g2: "EmailStr demo_libs (body_email ?b2) = None \<or> body_password ?b2 = []"
    by (simp add: demo_libs_def)
  note t1 = verify_password_unvalidated [of demo_libs ?b1 demo_db demo_cfg demo_env]
  note t2 = verify_password_unvalidated [of demo_libs ?b2 demo_db demo_cfg demo_env]
  note t3 = verify_password_unvalidated [of demo_libs ?b3 demo_db demo_cfg demo_env]
  from t1 h1 have 1: "post_auth_verify_password demo_libs ?b1 demo_db = (Inr ?A, demo_db)"
    by blast
  from t2 h2 have 2: "post_auth_verify_password demo_libs ?b2 demo_db = (Inr ?A, demo_db)"
    by blast
  from t3 h3 demo_hashes_parse
  have 3: "\<exists>r. post_auth_verify_password demo_libs ?b3 demo_db = (Inr r, demo_db)"
    by blast
  from t1 g1 have 4: "post_auth_login demo_libs ?b1 demo_db = (Inl RequestValidationError, demo_db)"
    by blast
  from t2 g2 have 5: "post_auth_register demo_libs demo_cfg demo_env ?b2 demo_db
     = (Inl RequestValidationError, demo_db)"
    by blast
  from 1 2 3 4 5 show ?thesis by (intro conjI)
qed

subsection \<open>The role invariant on a run of the service\<close>

text \<open>The invariant of C8 on the example store and three requests: the owner registers
  (and becomes \<^verbatim>\<open>admin\<close>), a user logs in, a password is verified.\<close>

theorem role_invariant_witness:
  "set (map role demo_db) \<subseteq> set user_role \<and>
   set (map role
     (serve demo_libs demo_cfg
        [(demo_env\<lparr>urandom16 := - 1\<rparr>,
          Register \<lparr>body_email = ''Owner@X.com'', body_password = ''longpassword1'', body_name = None\<rparr>),
         (demo_env,
          Login \<lparr>body_email = ''a@x.com'', body_password = ''longpassword1'', body_name = None\<rparr>),
         (demo_env,
          VerifyPassword \<lparr>body_email = ''a@x.com'', body_password = ''wrong'', body_name = None\<rparr>)]
        demo_db)) \<subseteq> set user_role \<and>
   map role
     (serve demo_libs demo_cfg
        [(demo_env\<lparr>urandom16 := - 1\<rparr>,
          Register \<lparr>body_email = ''Owner@X.com'', body_password = ''longpassword1'', body_name = None\<rparr>),
         (demo_env,
          Login \<lparr>body_email = ''a@x.com'', body_password = ''longpassword1'', body_name = None\<rparr>),
         (demo_env,
          VerifyPassword \<lparr>body_email = ''a@x.com'', body_password = ''wrong'', body_name = None\<rparr>)]
        demo_db) = [''user'', ''support'', ''ops'', ''admin'']"
proof -
  let ?qs = "[(demo_env\<lparr>urandom16 := - 1\<rparr>,
          Register \<lparr>body_email = ''Owner@X.com'', body_password = ''longpassword1'', body_name = None\<rparr>),
         (demo_env,
          Login \<lparr>body_email = ''a@x.com'', body_password = ''longpassword1'', body_name = None\<rparr>),
         (demo_env,
          VerifyPassword \<lparr>body_email = ''a@x.com'', body_password = ''wrong'', body_name = None\<rparr>)]"
  have h: "\<forall>u\<in>set demo_db. role u \<in> set user_role"
    by (simp add: demo_db_def user_role_def)
  have l: "lower ''Owner@X.com'' = lower ''owner@x.com''"
    by code_simp
  have reg: "snd (post_auth_register demo_libs demo_cfg (demo_env\<lparr>urandom16 := - 1\<rparr>)
       \<lparr>body_email = ''Owner@X.com'', body_password = ''longpassword1'', body_name = None\<rparr> demo_db)
     = demo_db @ [row_of 4 7
          \<lparr>kw_openId = ''local_ffffffffffff4fff'', kw_name = None,
           kw_email = Some ''Owner@X.com'',
           kw_passwordHash = Some ''$2b$salt$longpassword1'',
           kw_loginMethod = Some ''password'', kw_role = Some ''admin''\<rparr>]"
    by (simp add: post_auth_register_def validate_RegisterRequest_def register_cases
        new_open_id_ones Let_def role_for_def l next_id_def row_of_def
        pwd_hash_def MAX_PASSWORD_SIZE_def
        demo_libs_def demo_env_def demo_cfg_def demo_db_def)
  have roles: "map role (serve demo_libs demo_cfg ?qs demo_db) = [''user'', ''support'', ''ops'', ''admin'']"
    by (simp add: reg post_auth_login_store post_auth_verify_password_eq verify_password_store)
       (simp add: demo_db_def row_of_def)
  from role_invariant [of demo_db demo_libs demo_cfg ?qs "''Owner@X.com''"] h
  have "\<forall>u\<in>set (serve demo_libs demo_cfg ?qs demo_db). role u \<in> set user_role"
    by (elim conjE) simp
  then have "set (map role (serve demo_libs demo_cfg ?qs demo_db)) \<subseteq> set user_role"
    by auto
  moreover from h have "set (map role demo_db) \<subseteq> set user_role"
    by auto
  ultimately show ?thesis using roles by (intro conjI)
qed

end
